theory Spec2Isabelle
  imports Complex_Main "HOL-Library.Word"
begin

section \<open>Go values shared by both packages\<close>

text \<open>
  A Go slice is either \<open>nil\<close> or a sequence of elements; \<open>len\<close> is 0 for both \<open>nil\<close>
  and the empty non-nil slice. A pointer is \<open>None\<close> (nil) or \<open>Some\<close> of the pointee.
\<close>

type_synonym byte = "8 word"

type_synonym 'a slice = "'a list option"

definition len :: "'a slice \<Rightarrow> nat" where
  "len s = (case s of None \<Rightarrow> 0 | Some xs \<Rightarrow> length xs)"

definition elems :: "'a slice \<Rightarrow> 'a list" where
  "elems s = (case s of None \<Rightarrow> [] | Some xs \<Rightarrow> xs)"

text \<open>
  Error values of \<open>github.com/pkg/errors\<close>: \<open>errors.New\<close> and \<open>errors.Errorf\<close> build an
  error from a message (for \<open>Errorf\<close> the formatted one); \<open>errors.Wrap err msg\<close> keeps
  \<open>err\<close> as its cause and prefixes the message. Errors that a library or the authority
  returns are values of the same type.
\<close>

datatype error = New string | Wrap error string

fun Error :: "error \<Rightarrow> string" where
  "Error (New msg) = msg"
| "Error (Wrap err msg) = msg @ '': '' @ Error err"

section \<open>Package api: the sign request (src/api/ssh.go)\<close>

text \<open>
  Modelled from the spec: the constants \<open>provisioner.SSHUserCert\<close> and
  \<open>provisioner.SSHHostCert\<close> are declared in package provisioner, outside the sources;
  the spec gives their values as "user" and "host".
\<close>

definition SSHUserCert :: string where
  "SSHUserCert = ''user''"

definition SSHHostCert :: string where
  "SSHHostCert = ''host''"

text \<open>
  \<open>SSHSignRequest\<close>. The type \<open>'td\<close> stands for \<open>provisioner.TimeDuration\<close>, which the
  handler only copies.
\<close>

record 'td SSHSignRequest =
  PublicKey :: "byte slice"
  OTT :: string
  CertType :: string
  Principals :: "string slice"
  ValidAfter :: 'td
  ValidBefore :: 'td
  AddUserPublicKey :: "byte slice"

text \<open>\<open>func (s *SSHSignRequest) Validate() error\<close>: the first case of the switch that holds decides.\<close>

definition SSHSignRequest_Validate :: "'td SSHSignRequest \<Rightarrow> error option" where
  "SSHSignRequest_Validate s =
     (if CertType s \<noteq> '''' \<and> CertType s \<noteq> SSHUserCert \<and> CertType s \<noteq> SSHHostCert
        then Some (New (''unknown certType '' @ CertType s))
      else if len (PublicKey s) = 0
        then Some (New ''missing or empty publicKey'')
      else if length (OTT s) = 0
        then Some (New ''missing or empty ott'')
      else None)"

section \<open>Package authority: the configuration (src/authority/config.go)\<close>

text \<open>
  \<open>tlsutil.TLSOptions\<close>. The versions are \<open>float64\<close> in Go. The code only copies them,
  compares them with 0 and compares them with each other, so a version is modelled as
  the real number the \<open>float64\<close> denotes: a finite \<open>float64\<close> is a rational number,
  and \<open>==\<close> and \<open>>\<close> on finite values are equality and order of these numbers (the two
  zeros denote 0). A document decoded from JSON holds no NaN and no infinity.
\<close>

record TLSOptions =
  CipherSuites :: "string slice"
  MinVersion :: real
  MaxVersion :: real
  Renegotiation :: bool

text \<open>The \<open>float64\<close> values of the literals \<open>1.2\<close> and \<open>1.3\<close>.\<close>

definition float64_1_2 :: real where
  "float64_1_2 = 5404319552844595 / 4503599627370496"

definition float64_1_3 :: real where
  "float64_1_3 = 5854679515581645 / 4503599627370496"

text \<open>The declared value of the package variable \<open>DefaultTLSOptions\<close>.\<close>

definition DefaultTLSOptions :: TLSOptions where
  "DefaultTLSOptions =
     \<lparr>CipherSuites = Some [''TLS_ECDHE_ECDSA_WITH_CHACHA20_POLY1305'',
                           ''TLS_ECDHE_RSA_WITH_AES_128_GCM_SHA256'',
                           ''TLS_ECDHE_ECDSA_WITH_AES_256_GCM_SHA384''],
      MinVersion = float64_1_2,
      MaxVersion = float64_1_2,
      Renegotiation = False\<rparr>"

text \<open>
  The field \<open>TLS *tlsutil.TLSOptions\<close> of a configuration is nil, or the address of the
  package variable \<open>DefaultTLSOptions\<close> (what \<open>Validate\<close> itself installs), or the
  address of an object of the configuration's own. Since \<open>DefaultTLSOptions\<close> is a
  variable, its current value \<open>D\<close> is part of the state that \<open>Validate\<close> reads and, through
  an aliasing \<open>TLS\<close> pointer, writes.
\<close>

datatype TLS_ref = TLS_nil | TLS_default | TLS_own TLSOptions

text \<open>
  Reading and writing through the pointer, given the value of the package variable.
  Both are used on a pointer that is not nil only.
\<close>

definition tls_get :: "TLSOptions \<Rightarrow> TLS_ref \<Rightarrow> TLSOptions" where
  "tls_get D r = (case r of TLS_own t \<Rightarrow> t | _ \<Rightarrow> D)"

definition tls_upd :: "(TLSOptions \<Rightarrow> TLSOptions) \<Rightarrow> TLSOptions \<times> TLS_ref \<Rightarrow> TLSOptions \<times> TLS_ref" where
  "tls_upd f s = (case snd s of TLS_own t \<Rightarrow> (fst s, TLS_own (f t)) | _ \<Rightarrow> (f (fst s), snd s))"

record duration =
  Duration :: "64 word"

typedecl JSONWebKey

record Provisioner =
  Issuer :: string
  Type :: string
  Key :: "JSONWebKey option"
  EncryptedKey :: string

text \<open>\<open>x509util.ASN1DN\<close>; \<open>&x509util.ASN1DN{}\<close> is the object with every field empty.\<close>

record ASN1DN =
  Country :: string
  Organization :: string
  OrganizationalUnit :: string
  Locality :: string
  Province :: string
  StreetAddress :: string
  CommonName :: string

definition empty_ASN1DN :: ASN1DN where
  "empty_ASN1DN =
     \<lparr>Country = '''', Organization = '''', OrganizationalUnit = '''', Locality = '''',
      Province = '''', StreetAddress = '''', CommonName = ''''\<rparr>"

record AuthConfig =
  Provisioners :: "Provisioner option slice"
  Template :: "ASN1DN option"
  MinCertDuration :: "duration option"
  MaxCertDuration :: "duration option"

text \<open>
  \<open>func (c *AuthConfig) Validate() error\<close>. The receiver may be nil. The result is the
  error and the receiver after the call.
\<close>

definition AuthConfig_Validate :: "AuthConfig option \<Rightarrow> error option \<times> AuthConfig option" where
  "AuthConfig_Validate c =
     (case c of
        None \<Rightarrow> (Some (New ''authority cannot be undefined''), None)
      | Some a \<Rightarrow>
          if len (Provisioners a) = 0
            then (Some (New ''authority.provisioners cannot be empty''), Some a)
          else if Template a = None
            then (None, Some (a\<lparr>Template := Some empty_ASN1DN\<rparr>))
          else (None, Some a))"

record Config =
  Root :: string
  IntermediateCert :: string
  IntermediateKey :: string
  Address :: string
  DNSNames :: "string slice"
  Logger :: "byte slice"
  Monitoring :: "byte slice"
  AuthorityConfig :: "AuthConfig option"
  TLS :: TLS_ref
  Password :: string

text \<open>
  The TLS step of \<open>Validate\<close>, statement by statement, on the pair of the package
  variable and the pointer \<open>c.TLS\<close>. The three defaulting assignments and the
  renegotiation assignment belong to the \<open>else\<close> branch (\<open>c.TLS\<close> is not nil).
\<close>

definition tls_cipher_step :: "TLSOptions \<times> TLS_ref \<Rightarrow> TLSOptions \<times> TLS_ref" where
  "tls_cipher_step s =
     (if len (CipherSuites (tls_get (fst s) (snd s))) = 0
        then tls_upd (\<lambda>t. t\<lparr>CipherSuites := CipherSuites (fst s)\<rparr>) s
      else s)"

definition tls_max_step :: "TLSOptions \<times> TLS_ref \<Rightarrow> TLSOptions \<times> TLS_ref" where
  "tls_max_step s =
     (if MaxVersion (tls_get (fst s) (snd s)) = 0
        then tls_upd (\<lambda>t. t\<lparr>MaxVersion := MaxVersion (fst s)\<rparr>) s
      else s)"

definition tls_min_step :: "TLSOptions \<times> TLS_ref \<Rightarrow> TLSOptions \<times> TLS_ref" where
  "tls_min_step s =
     (if MinVersion (tls_get (fst s) (snd s)) = 0
        then tls_upd (\<lambda>t. t\<lparr>MinVersion := MaxVersion (tls_get (fst s) (snd s))\<rparr>) s
      else s)"

definition tls_renegotiation_step :: "TLSOptions \<times> TLS_ref \<Rightarrow> TLSOptions \<times> TLS_ref" where
  "tls_renegotiation_step s =
     tls_upd (\<lambda>t. t\<lparr>Renegotiation := Renegotiation t \<or> Renegotiation (fst s)\<rparr>) s"

text \<open>
  The whole \<open>if c.TLS == nil { ... } else { ... }\<close>: the error of the early return (if
  any) and the state where the step stops.
\<close>

definition tls_step :: "TLSOptions \<times> TLS_ref \<Rightarrow> error option \<times> TLSOptions \<times> TLS_ref" where
  "tls_step s =
     (if snd s = TLS_nil then (None, fst s, TLS_default)
      else
        (let s3 = tls_min_step (tls_max_step (tls_cipher_step s)) in
         if MinVersion (tls_get (fst s3) (snd s3)) > MaxVersion (tls_get (fst s3) (snd s3))
           then (Some (New ''tls minVersion cannot exceed tls maxVersion''), s3)
         else (None, tls_renegotiation_step s3)))"

text \<open>
  \<open>func (c *Config) Validate() error\<close>, on a receiver that is not nil. The arguments are
  the value of \<open>DefaultTLSOptions\<close> and the configuration; the result is the error, the
  value of \<open>DefaultTLSOptions\<close> and the configuration after the call.
\<close>

definition Config_Validate :: "TLSOptions \<Rightarrow> Config \<Rightarrow> error option \<times> TLSOptions \<times> Config" where
  "Config_Validate D c =
     (if Address c = '''' then (Some (New ''address cannot be empty''), D, c)
      else if Root c = '''' then (Some (New ''root cannot be empty''), D, c)
      else if IntermediateCert c = '''' then (Some (New ''crt cannot be empty''), D, c)
      else if IntermediateKey c = '''' then (Some (New ''key cannot be empty''), D, c)
      else if len (DNSNames c) = 0 then (Some (New ''dnsNames cannot be empty''), D, c)
      else
        (case tls_step (D, TLS c) of
           (Some err, D', r') \<Rightarrow> (Some err, D', c\<lparr>TLS := r'\<rparr>)
         | (None, D', r') \<Rightarrow>
             (case AuthConfig_Validate (AuthorityConfig c) of
                (err, a') \<Rightarrow> (err, D', c\<lparr>TLS := r', AuthorityConfig := a'\<rparr>))))"

section \<open>Package api: the wire codec (src/api/ssh.go)\<close>

text \<open>
  Values of \<open>golang.org/x/crypto/ssh\<close>. A public key that is not a certificate carries
  the name of its Go type (what \<open>%T\<close> prints) and its key material; a certificate has
  the fields of \<open>ssh.Certificate\<close>. \<open>ssh.PublicKey\<close> is an interface: a value of it is a
  key of some concrete type or a \<open>*ssh.Certificate\<close>.
\<close>

record plain_key =
  go_type :: string
  material :: "byte list"

record ssh_Signature =
  Format :: string
  Blob :: "byte slice"
  Rest :: "byte slice"

record ssh_Certificate =
  Nonce :: "byte slice"
  Key :: plain_key
  Serial :: "64 word"
  CertType :: "32 word"
  KeyId :: string
  ValidPrincipals :: "string slice"
  ValidAfter :: "64 word"
  ValidBefore :: "64 word"
  CriticalOptions :: "string \<rightharpoonup> string"
  Extensions :: "string \<rightharpoonup> string"
  Reserved :: "byte slice"
  SignatureKey :: plain_key
  Signature :: "ssh_Signature option"

datatype ssh_PublicKey = PlainKey plain_key | CertKey ssh_Certificate

text \<open>The constants \<open>ssh.UserCert\<close> and \<open>ssh.HostCert\<close>.\<close>

definition UserCert :: "32 word" where
  "UserCert = 1"

definition HostCert :: "32 word" where
  "HostCert = 2"

text \<open>What the verb \<open>%T\<close> prints for a value of the interface.\<close>

fun TypeName :: "ssh_PublicKey \<Rightarrow> string" where
  "TypeName (PlainKey k) = go_type k"
| "TypeName (CertKey c) = ''*ssh.Certificate''"

text \<open>
  The library functions the codec calls, as parameters:
  \<^item> \<open>json_Unmarshal_string data\<close> is \<open>json.Unmarshal(data, &s)\<close> on a fresh \<open>var s string\<close>:
    the error, or the value of \<open>s\<close> afterwards (for the JSON literal \<open>null\<close> the library
    leaves \<open>s\<close> as it is, the empty string);
  \<^item> \<open>EncodeToString\<close> and \<open>DecodeString\<close> are those of \<open>base64.StdEncoding\<close>;
  \<^item> \<open>Marshal\<close> is the method \<open>Marshal\<close> of the key or certificate, \<open>ParsePublicKey\<close> is
    \<open>ssh.ParsePublicKey\<close>.
\<close>

record lib =
  json_Unmarshal_string :: "string \<Rightarrow> error + string"
  EncodeToString :: "byte list \<Rightarrow> string"
  DecodeString :: "string \<Rightarrow> error + byte list"
  Marshal :: "ssh_PublicKey \<Rightarrow> byte list"
  ParsePublicKey :: "byte list \<Rightarrow> error + ssh_PublicKey"

record SSHCertificate =
  Certificate :: "ssh_Certificate option"


text \<open>
  \<open>func (c *SSHCertificate) UnmarshalJSON(data []byte) error\<close>: the error and the
  receiver after the call.
\<close>

definition SSHCertificate_UnmarshalJSON :: "lib \<Rightarrow> SSHCertificate \<Rightarrow> string \<Rightarrow> error option \<times> SSHCertificate" where
  "SSHCertificate_UnmarshalJSON L c data =
     (case json_Unmarshal_string L data of
        Inl err \<Rightarrow> (Some (Wrap err ''error decoding certificate''), c)
      | Inr s \<Rightarrow>
          if s = '''' then (None, c\<lparr>Certificate := None\<rparr>)
          else
            (case DecodeString L s of
               Inl err \<Rightarrow> (Some (Wrap err ''error decoding ssh certificate''), c)
             | Inr certData \<Rightarrow>
                 (case ParsePublicKey L certData of
                    Inl err \<Rightarrow> (Some (Wrap err ''error parsing ssh certificate''), c)
                  | Inr pub \<Rightarrow>
                      (case pub of
                         CertKey cert \<Rightarrow> (None, c\<lparr>Certificate := Some cert\<rparr>)
                       | PlainKey k \<Rightarrow>
                           (Some (New (''error decoding ssh certificate: '' @ TypeName pub
                                        @ '' is not an *ssh.Certificate'')), c)))))"

record SSHPublicKey =
  PublicKey :: "ssh_PublicKey option"


text \<open>\<open>func (p *SSHPublicKey) UnmarshalJSON(data []byte) error\<close>.\<close>

definition SSHPublicKey_UnmarshalJSON :: "lib \<Rightarrow> SSHPublicKey \<Rightarrow> string \<Rightarrow> error option \<times> SSHPublicKey" where
  "SSHPublicKey_UnmarshalJSON L p data =
     (case json_Unmarshal_string L data of
        Inl err \<Rightarrow> (Some (Wrap err ''error decoding ssh public key''), p)
      | Inr s \<Rightarrow>
          if s = '''' then (None, p\<lparr>PublicKey := None\<rparr>)
          else
            (case DecodeString L s of
               Inl err \<Rightarrow> (Some (Wrap err ''error decoding ssh public key''), p)
             | Inr bs \<Rightarrow>
                 (case ParsePublicKey L bs of
                    Inl err \<Rightarrow> (Some (Wrap err ''error parsing ssh public key''), p)
                  | Inr pub \<Rightarrow> (None, p\<lparr>PublicKey := Some pub\<rparr>))))"

section \<open>Package api: the sign handler (src/api/ssh.go)\<close>

text \<open>\<open>provisioner.SSHOptions\<close>, with the four fields the handler fills in.\<close>

record 'td SSHOptions =
  CertType :: string
  Principals :: "string slice"
  ValidBefore :: 'td
  ValidAfter :: 'td

text \<open>
  The context handed to \<open>Authorize\<close> is the background context with a method stored in
  it by \<open>provisioner.NewContextWithMethod\<close>; the handler stores \<open>SignSSHMethod\<close>.
\<close>

datatype Method = SignSSHMethod | OtherMethod

text \<open>
  The authority behind \<open>h.Authority\<close>: an interface, so any implementation. Each method
  takes the authority's state and returns the new one with its result. A Go result
  \<open>(value, error)\<close> is a sum: \<open>Inl\<close> the error, \<open>Inr\<close> the value (not nil) when the error
  is nil. \<open>'opt\<close> stands for \<open>provisioner.SignOption\<close>.
\<close>

record ('st, 'opt, 'td) Authority =
  Authorize :: "'st \<Rightarrow> Method \<Rightarrow> string \<Rightarrow> (error + 'opt list) \<times> 'st"
  SignSSH :: "'st \<Rightarrow> ssh_PublicKey \<Rightarrow> 'td SSHOptions \<Rightarrow> 'opt list \<Rightarrow> (error + ssh_Certificate) \<times> 'st"
  SignSSHAddUser :: "'st \<Rightarrow> ssh_PublicKey \<Rightarrow> ssh_Certificate \<Rightarrow> (error + ssh_Certificate) \<times> 'st"

text \<open>The calls the handler makes on the authority, in order.\<close>

datatype ('opt, 'td) call =
    Call_Authorize Method string
  | Call_SignSSH ssh_PublicKey "'td SSHOptions" "'opt list"
  | Call_SignSSHAddUser ssh_PublicKey ssh_Certificate

record SSHSignResponse =
  Certificate :: SSHCertificate
  AddUserCertificate :: "SSHCertificate option"

text \<open>
  Modelled from the spec: the error constructors \<open>BadRequest\<close>, \<open>Unauthorized\<close> and
  \<open>Forbidden\<close> of package api and the status code each carries are declared outside the
  sources. The spec's table of the HTTP interface gives the codes: 400 for a client
  error, 401 for a failed authorization, 403 for a refused signing.
\<close>

datatype api_error = BadRequest error | Unauthorized error | Forbidden error

fun StatusCode :: "api_error \<Rightarrow> nat" where
  "StatusCode (BadRequest err) = 400"
| "StatusCode (Unauthorized err) = 401"
| "StatusCode (Forbidden err) = 403"

datatype response_body = ErrorBody api_error | SignBody SSHSignResponse

text \<open>
  \<open>http.ResponseWriter\<close>: the status written (\<open>None\<close> before the header is written), the
  body, and the token recorded for the log.
\<close>

record ResponseWriter =
  Status :: "nat option"
  Body :: "response_body option"
  ott_field :: "string option"

text \<open>\<open>w.WriteHeader\<close>: only the first call writes the status.\<close>

definition WriteHeader :: "ResponseWriter \<Rightarrow> nat \<Rightarrow> ResponseWriter" where
  "WriteHeader w code = (if Status w = None then w\<lparr>Status := Some code\<rparr> else w)"

text \<open>
  Modelled from the spec: the helper \<open>JSON\<close> of package api is outside the sources. It
  writes a value as the body of the response (the spec: the response contains the issued
  certificate and the add-user certificate if produced); writing a body writes the
  header with status 200 when none was written before.
\<close>

definition JSON :: "ResponseWriter \<Rightarrow> response_body \<Rightarrow> ResponseWriter" where
  "JSON w v = (WriteHeader w 200)\<lparr>Body := Some v\<rparr>"

text \<open>
  Modelled from the spec: the helper \<open>WriteError\<close> of package api is outside the sources.
  It reports an error as the response: the status is the code of the error, the body is
  the error.
\<close>

definition WriteError :: "ResponseWriter \<Rightarrow> api_error \<Rightarrow> ResponseWriter" where
  "WriteError w err = (WriteHeader w (StatusCode err))\<lparr>Body := Some (ErrorBody err)\<rparr>"

text \<open>
  Modelled from the spec: the helper \<open>logOtt\<close> of package api is outside the sources, and
  the spec gives it no part in the response. It is taken to record the token for the
  request log and to write neither header nor body.
\<close>

definition logOtt :: "ResponseWriter \<Rightarrow> string \<Rightarrow> ResponseWriter" where
  "logOtt w token = w\<lparr>ott_field := Some token\<rparr>"

text \<open>The constant \<open>http.StatusCreated\<close>.\<close>

definition StatusCreated :: nat where
  "StatusCreated = 201"

text \<open>
  \<open>func (h *caHandler) SSHSign(w http.ResponseWriter, r *http.Request)\<close>. The arguments
  are the libraries, \<open>ReadJSON\<close>, the authority \<open>h.Authority\<close> and its state, the response
  writer and the request body; the result is the response writer and the authority's
  state after the call, and the calls made on the authority. The helper \<open>ReadJSON\<close> of
  package api is outside the sources and is a parameter: it decodes the body into a
  request or fails.
\<close>

definition SSHSign ::
  "lib \<Rightarrow> (string \<Rightarrow> error + 'td SSHSignRequest) \<Rightarrow> ('st, 'opt, 'td) Authority \<Rightarrow> 'st \<Rightarrow>
   ResponseWriter \<Rightarrow> string \<Rightarrow> ResponseWriter \<times> 'st \<times> ('opt, 'td) call list" where
  "SSHSign L ReadJSON h st w0 r_Body =
     (case ReadJSON r_Body of
        Inl err \<Rightarrow> (WriteError w0 (BadRequest (Wrap err ''error reading request body'')), st, [])
      | Inr body \<Rightarrow>
     (let w = logOtt w0 (OTT body) in
      case SSHSignRequest_Validate body of
        Some err \<Rightarrow> (WriteError w (BadRequest err), st, [])
      | None \<Rightarrow>
     (case ParsePublicKey L (elems (SSHSignRequest.PublicKey body)) of
        Inl err \<Rightarrow> (WriteError w (BadRequest (Wrap err ''error parsing publicKey'')), st, [])
      | Inr publicKey \<Rightarrow>
     (case (case AddUserPublicKey body of
              None \<Rightarrow> Inr None
            | Some bs \<Rightarrow>
                (case ParsePublicKey L bs of Inl err \<Rightarrow> Inl err | Inr k \<Rightarrow> Inr (Some k))) of
        Inl err \<Rightarrow> (WriteError w (BadRequest (Wrap err ''error parsing addUserPublicKey'')), st, [])
      | Inr addUserPublicKey \<Rightarrow>
     (let opts = \<lparr>SSHOptions.CertType = SSHSignRequest.CertType body,
                  SSHOptions.Principals = SSHSignRequest.Principals body,
                  SSHOptions.ValidBefore = SSHSignRequest.ValidBefore body,
                  SSHOptions.ValidAfter = SSHSignRequest.ValidAfter body\<rparr>;
          call1 = Call_Authorize SignSSHMethod (OTT body)
      in
      case Authorize h st SignSSHMethod (OTT body) of
        (Inl err, st1) \<Rightarrow> (WriteError w (Unauthorized err), st1, [call1])
      | (Inr signOpts, st1) \<Rightarrow>
     (let call2 = Call_SignSSH publicKey opts signOpts in
      case SignSSH h st1 publicKey opts signOpts of
        (Inl err, st2) \<Rightarrow> (WriteError w (Forbidden err), st2, [call1, call2])
      | (Inr cert, st2) \<Rightarrow>
          if addUserPublicKey \<noteq> None \<and> ssh_Certificate.CertType cert = UserCert
             \<and> len (ValidPrincipals cert) = 1
          then
            (let call3 = Call_SignSSHAddUser (the addUserPublicKey) cert in
             case SignSSHAddUser h st2 (the addUserPublicKey) cert of
               (Inl err, st3) \<Rightarrow> (WriteError w (Forbidden err), st3, [call1, call2, call3])
             | (Inr addUserCert, st3) \<Rightarrow>
                 (JSON (WriteHeader w StatusCreated)
                    (SignBody
                       \<lparr>SSHSignResponse.Certificate = \<lparr>SSHCertificate.Certificate = Some cert\<rparr>,
                        AddUserCertificate = Some \<lparr>SSHCertificate.Certificate = Some addUserCert\<rparr>\<rparr>),
                  st3, [call1, call2, call3]))
          else
            (JSON (WriteHeader w StatusCreated)
               (SignBody
                  \<lparr>SSHSignResponse.Certificate = \<lparr>SSHCertificate.Certificate = Some cert\<rparr>,
                   AddUserCertificate = None\<rparr>),
             st2, [call1, call2])))))))"

section \<open>Notions used in the statements\<close>

text \<open>The five required-field checks of \<open>Config.Validate\<close> all pass.\<close>

definition required_fields :: "Config \<Rightarrow> bool" where
  "required_fields c \<longleftrightarrow>
     Address c \<noteq> '''' \<and> Root c \<noteq> '''' \<and> IntermediateCert c \<noteq> '''' \<and> IntermediateKey c \<noteq> ''''
     \<and> len (DNSNames c) \<noteq> 0"

text \<open>
  The TLS policy after defaulting as the specification words it: the cipher suites from
  the default if empty, the maximal version from the default if zero, then the minimal
  version from the maximal version just computed if zero. To be compared with the three
  assignments of the code.
\<close>

definition tls_defaulted :: "TLSOptions \<Rightarrow> TLSOptions \<Rightarrow> TLSOptions" where
  "tls_defaulted D t =
     (let cs = (if len (CipherSuites t) = 0 then CipherSuites D else CipherSuites t);
          mx = (if MaxVersion t = 0 then MaxVersion D else MaxVersion t);
          mn = (if MinVersion t = 0 then mx else MinVersion t)
      in \<lparr>CipherSuites = cs, MinVersion = mn, MaxVersion = mx, Renegotiation = Renegotiation t\<rparr>)"

text \<open>Concrete requests and configuration documents, for the examples.\<close>

definition mk_Config ::
  "string \<Rightarrow> string \<Rightarrow> string \<Rightarrow> string \<Rightarrow> string slice \<Rightarrow> TLS_ref \<Rightarrow> AuthConfig option \<Rightarrow> Config" where
  "mk_Config addr rt crt ky names tls auth =
     \<lparr>Root = rt, IntermediateCert = crt, IntermediateKey = ky, Address = addr,
      DNSNames = names, Logger = None, Monitoring = None, AuthorityConfig = auth, TLS = tls,
      Password = ''''\<rparr>"

definition mk_AuthConfig :: "Provisioner option slice \<Rightarrow> ASN1DN option \<Rightarrow> AuthConfig" where
  "mk_AuthConfig ps tpl =
     \<lparr>Provisioners = ps, Template = tpl, MinCertDuration = None, MaxCertDuration = None\<rparr>"

definition one_Provisioner :: "Provisioner option slice" where
  "one_Provisioner =
     Some [Some \<lparr>Issuer = ''step'', Type = ''jwk'', Key = None, EncryptedKey = ''''\<rparr>]"

definition mk_TLSOptions :: "string slice \<Rightarrow> real \<Rightarrow> real \<Rightarrow> bool \<Rightarrow> TLSOptions" where
  "mk_TLSOptions cs mn mx rn =
     \<lparr>CipherSuites = cs, MinVersion = mn, MaxVersion = mx, Renegotiation = rn\<rparr>"

text \<open>
  The stages of the sign handler, as the statements name them: the options handed to
  \<open>SignSSH\<close>, the add-user key after parsing (\<open>Inr None\<close> when the request has none), and
  the add-user policy.
\<close>

definition opts_of :: "'td SSHSignRequest \<Rightarrow> 'td SSHOptions" where
  "opts_of b =
     \<lparr>SSHOptions.CertType = SSHSignRequest.CertType b,
      SSHOptions.Principals = SSHSignRequest.Principals b,
      SSHOptions.ValidBefore = SSHSignRequest.ValidBefore b,
      SSHOptions.ValidAfter = SSHSignRequest.ValidAfter b\<rparr>"

definition addUser_key :: "lib \<Rightarrow> 'td SSHSignRequest \<Rightarrow> error + ssh_PublicKey option" where
  "addUser_key L b =
     (case AddUserPublicKey b of
        None \<Rightarrow> Inr None
      | Some bs \<Rightarrow> (case ParsePublicKey L bs of Inl err \<Rightarrow> Inl err | Inr k \<Rightarrow> Inr (Some k)))"

definition addUser_policy :: "ssh_PublicKey option \<Rightarrow> ssh_Certificate \<Rightarrow> bool" where
  "addUser_policy addUser cert \<longleftrightarrow>
     addUser \<noteq> None \<and> ssh_Certificate.CertType cert = UserCert \<and> len (ValidPrincipals cert) = 1"

definition is_Call_SignSSHAddUser :: "('opt, 'td) call \<Rightarrow> bool" where
  "is_Call_SignSSHAddUser x = (case x of Call_SignSSHAddUser k c \<Rightarrow> True | _ \<Rightarrow> False)"




section \<open>Test doubles for the examples\<close>

text \<open>
  A library for the examples: base64 with the standard alphabet and padding (no line
  breaks), JSON strings without escapes, and a wire format of one tag byte (0 for a
  plain key, 1 for a certificate) followed by the key material.
\<close>

definition b64_alphabet :: string where
  "b64_alphabet = ''ABCDEFGHIJKLMNOPQRSTUVWXYZabcdefghijklmnopqrstuvwxyz0123456789+/''"

fun b64_enc :: "nat list \<Rightarrow> string" where
  "b64_enc (a # b # c # rest) =
     (let n = a * 65536 + b * 256 + c
      in [b64_alphabet ! (n div 262144), b64_alphabet ! (n div 4096 mod 64),
          b64_alphabet ! (n div 64 mod 64), b64_alphabet ! (n mod 64)] @ b64_enc rest)"
| "b64_enc [a, b] =
     (let n = a * 65536 + b * 256
      in [b64_alphabet ! (n div 262144), b64_alphabet ! (n div 4096 mod 64),
          b64_alphabet ! (n div 64 mod 64), CHR ''=''])"
| "b64_enc [a] =
     (let n = a * 65536
      in [b64_alphabet ! (n div 262144), b64_alphabet ! (n div 4096 mod 64), CHR ''='', CHR ''=''])"
| "b64_enc [] = []"

fun b64_index :: "string \<Rightarrow> char \<Rightarrow> nat option" where
  "b64_index [] ch = None"
| "b64_index (x # xs) ch = (if x = ch then Some 0 else map_option Suc (b64_index xs ch))"

fun b64_dec :: "string \<Rightarrow> nat list option" where
  "b64_dec [] = Some []"
| "b64_dec (p # q # r # s # rest) =
     (case (b64_index b64_alphabet p, b64_index b64_alphabet q) of
        (Some i, Some j) \<Rightarrow>
          if r = CHR ''='' \<and> s = CHR ''='' \<and> rest = [] then Some [(i * 64 + j) div 16]
          else
            (case b64_index b64_alphabet r of
               None \<Rightarrow> None
             | Some k \<Rightarrow>
                 if s = CHR ''='' \<and> rest = []
                   then Some [(i * 64 + j) div 16, ((j * 64 + k) div 4) mod 256]
                 else
                   (case (b64_index b64_alphabet s, b64_dec rest) of
                      (Some l, Some bs) \<Rightarrow>
                        Some ((i * 64 + j) div 16 # ((j * 64 + k) div 4) mod 256
                              # (k * 64 + l) mod 256 # bs)
                    | _ \<Rightarrow> None))
      | _ \<Rightarrow> None)"
| "b64_dec (p # rest) = None"

definition ex_json_Unmarshal_string :: "string \<Rightarrow> error + string" where
  "ex_json_Unmarshal_string data =
     (if data = ''null'' then Inr ''''
      else if 2 \<le> length data \<and> hd data = CHR 0x22 \<and> last data = CHR 0x22
              \<and> CHR 0x22 \<notin> set (butlast (tl data)) \<and> CHR 0x5C \<notin> set (butlast (tl data))
        then Inr (butlast (tl data))
      else Inl (New ''json: cannot unmarshal into Go value of type string''))"

definition ex_cert :: "byte list \<Rightarrow> 32 word \<Rightarrow> string slice \<Rightarrow> ssh_Certificate" where
  "ex_cert m ty ps =
     \<lparr>Nonce = None, Key = \<lparr>go_type = ''ssh.ed25519PublicKey'', material = m\<rparr>, Serial = 0,
      CertType = ty, KeyId = '''', ValidPrincipals = ps, ValidAfter = 0, ValidBefore = 0,
      CriticalOptions = Map.empty, Extensions = Map.empty, Reserved = None,
      SignatureKey = \<lparr>go_type = ''ssh.ed25519PublicKey'', material = []\<rparr>,
      Signature = None\<rparr>"

definition ex_key :: "byte list \<Rightarrow> ssh_PublicKey" where
  "ex_key m = PlainKey \<lparr>go_type = ''ssh.ed25519PublicKey'', material = m\<rparr>"

fun ex_Marshal :: "ssh_PublicKey \<Rightarrow> byte list" where
  "ex_Marshal (PlainKey k) = 0 # material k"
| "ex_Marshal (CertKey c) = 1 # material (Key c)"

definition ex_ParsePublicKey :: "byte list \<Rightarrow> error + ssh_PublicKey" where
  "ex_ParsePublicKey bs =
     (case bs of
        [] \<Rightarrow> Inl (New ''ssh: short read'')
      | t # m \<Rightarrow>
          if t = 0 then Inr (ex_key m)
          else if t = 1 then Inr (CertKey (ex_cert m UserCert (Some [''alice''])))
          else Inl (New ''ssh: unknown key algorithm''))"

definition ex_lib :: lib where
  "ex_lib =
     \<lparr>json_Unmarshal_string = ex_json_Unmarshal_string,
      EncodeToString = (\<lambda>bs. b64_enc (map unat bs)),
      DecodeString = (\<lambda>s. case b64_dec s of
                             None \<Rightarrow> Inl (New ''illegal base64 data'')
                           | Some ns \<Rightarrow> Inr (map of_nat ns)),
      Marshal = ex_Marshal,
      ParsePublicKey = ex_ParsePublicKey\<rparr>"

text \<open>
  An authority for the examples. Its state counts the calls. It authorizes the token
  "good", signs for any request that names principals (a host certificate for certType
  "host", a user certificate otherwise), and signs an add-user certificate for any key
  but the one with material 13.
\<close>

definition ex_Authority :: "(nat, unit, unit) Authority" where
  "ex_Authority =
     \<lparr>Authorize = (\<lambda>st m ott.
        if m = SignSSHMethod \<and> ott = ''good'' then (Inr [()], Suc st)
        else (Inl (New ''token rejected''), Suc st)),
      SignSSH = (\<lambda>st k opts signOpts.
        if len (SSHOptions.Principals opts) = 0 then (Inl (New ''no principals''), Suc st)
        else (Inr (ex_cert (ex_Marshal k)
                     (if SSHOptions.CertType opts = ''host'' then HostCert else UserCert)
                     (SSHOptions.Principals opts)), Suc st)),
      SignSSHAddUser = (\<lambda>st k cert.
        if ex_Marshal k = [0, 13] then (Inl (New ''add-user refused''), Suc st)
        else (Inr (ex_cert (ex_Marshal k) UserCert (Some [''provisioner''])), Suc st))\<rparr>"

definition mk_SSHSignRequest ::
  "string \<Rightarrow> byte slice \<Rightarrow> string \<Rightarrow> string slice \<Rightarrow> byte slice \<Rightarrow> unit SSHSignRequest" where
  "mk_SSHSignRequest ct pk tok ps au =
     \<lparr>SSHSignRequest.PublicKey = pk, OTT = tok, SSHSignRequest.CertType = ct,
      SSHSignRequest.Principals = ps, SSHSignRequest.ValidAfter = (),
      SSHSignRequest.ValidBefore = (), AddUserPublicKey = au\<rparr>"

text \<open>A \<open>ReadJSON\<close> for the examples: it knows a few request bodies by name.\<close>

definition ex_ReadJSON :: "string \<Rightarrow> error + unit SSHSignRequest" where
  "ex_ReadJSON s =
     (if s = ''user+adduser'' then
        Inr (mk_SSHSignRequest ''user'' (Some [0, 7]) ''good'' (Some [''alice'']) (Some [0, 9]))
      else if s = ''user+adduser, two principals'' then
        Inr (mk_SSHSignRequest ''user'' (Some [0, 7]) ''good'' (Some [''alice'', ''bob'']) (Some [0, 9]))
      else if s = ''host+adduser'' then
        Inr (mk_SSHSignRequest ''host'' (Some [0, 7]) ''good'' (Some [''alice'']) (Some [0, 9]))
      else if s = ''user'' then
        Inr (mk_SSHSignRequest ''user'' (Some [0, 7]) ''good'' (Some [''alice'']) None)
      else if s = ''user+refused adduser'' then
        Inr (mk_SSHSignRequest ''user'' (Some [0, 7]) ''good'' (Some [''alice'']) (Some [0, 13]))
      else if s = ''user, no principals'' then
        Inr (mk_SSHSignRequest ''user'' (Some [0, 7]) ''good'' None None)
      else if s = ''user, bad token'' then
        Inr (mk_SSHSignRequest ''user'' (Some [0, 7]) ''bad'' (Some [''alice'']) None)
      else if s = ''user, bad key'' then
        Inr (mk_SSHSignRequest ''user'' (Some [9]) ''good'' (Some [''alice'']) None)
      else if s = ''user, bad adduser key'' then
        Inr (mk_SSHSignRequest ''user'' (Some [0, 7]) ''good'' (Some [''alice'']) (Some []))
      else if s = ''unknown type'' then
        Inr (mk_SSHSignRequest ''X'' (Some [0, 7]) ''good'' (Some [''alice'']) None)
      else Inl (New ''unexpected end of JSON input''))"

definition new_ResponseWriter :: ResponseWriter where
  "new_ResponseWriter = \<lparr>Status = None, Body = None, ott_field = None\<rparr>"

section \<open>Properties of the sign request\<close>

text \<open>
  Claim C7. \<open>SSHSignRequest.Validate\<close> accepts an unset (empty) certType when the public
  key and the token are there; it rejects every non-empty certType other than "user" and
  "host", and the message of the error is "unknown certType " followed by the offending
  value; it rejects a missing (nil) or empty publicKey and an empty token; a request
  whose certType is empty, "user" or "host" and whose publicKey and token are not empty
  validates.
\<close>

theorem SSHSignRequest_Validate_cases:
  "(SSHSignRequest.CertType s = '''' \<and> len (SSHSignRequest.PublicKey s) \<noteq> 0 \<and> OTT s \<noteq> ''''
      \<longrightarrow> SSHSignRequest_Validate s = None)
   \<and> (SSHSignRequest.CertType s \<noteq> '''' \<and> SSHSignRequest.CertType s \<noteq> ''user''
        \<and> SSHSignRequest.CertType s \<noteq> ''host''
      \<longrightarrow> (\<exists>e. SSHSignRequest_Validate s = Some e
               \<and> Error e = ''unknown certType '' @ SSHSignRequest.CertType s))
   \<and> (SSHSignRequest.PublicKey s = None \<or> SSHSignRequest.PublicKey s = Some []
      \<longrightarrow> SSHSignRequest_Validate s \<noteq> None)
   \<and> (OTT s = '''' \<longrightarrow> SSHSignRequest_Validate s \<noteq> None)
   \<and> ((SSHSignRequest.CertType s = '''' \<or> SSHSignRequest.CertType s = ''user''
         \<or> SSHSignRequest.CertType s = ''host'')
        \<and> len (SSHSignRequest.PublicKey s) \<noteq> 0 \<and> OTT s \<noteq> ''''
      \<longrightarrow> SSHSignRequest_Validate s = None)"
  by (auto simp: SSHSignRequest_Validate_def SSHUserCert_def SSHHostCert_def len_def)

theorem SSHSignRequest_Validate_cases_witness:
  "SSHSignRequest_Validate (mk_SSHSignRequest '''' (Some [1]) ''tok'' None None) = None
   \<and> (\<exists>e. SSHSignRequest_Validate (mk_SSHSignRequest ''X'' (Some [1]) ''tok'' None None) = Some e
          \<and> Error e = ''unknown certType X'')
   \<and> SSHSignRequest_Validate (mk_SSHSignRequest ''user'' None ''tok'' None None) \<noteq> None
   \<and> SSHSignRequest_Validate (mk_SSHSignRequest ''user'' (Some []) ''tok'' None None) \<noteq> None
   \<and> SSHSignRequest_Validate (mk_SSHSignRequest ''host'' (Some [1]) '''' None None) \<noteq> None
   \<and> SSHSignRequest_Validate (mk_SSHSignRequest ''host'' (Some [1]) ''tok'' None None) = None"
  using SSHSignRequest_Validate_cases [of "mk_SSHSignRequest '''' (Some [1]) ''tok'' None None"]
    SSHSignRequest_Validate_cases [of "mk_SSHSignRequest ''X'' (Some [1]) ''tok'' None None"]
    SSHSignRequest_Validate_cases [of "mk_SSHSignRequest ''user'' None ''tok'' None None"]
    SSHSignRequest_Validate_cases [of "mk_SSHSignRequest ''user'' (Some []) ''tok'' None None"]
    SSHSignRequest_Validate_cases [of "mk_SSHSignRequest ''host'' (Some [1]) '''' None None"]
    SSHSignRequest_Validate_cases [of "mk_SSHSignRequest ''host'' (Some [1]) ''tok'' None None"]
  by (simp add: mk_SSHSignRequest_def len_def)

section \<open>Properties of the configuration\<close>

subsection \<open>The TLS step\<close>

lemma tls_step_nil: "tls_step (D, TLS_nil) = (None, D, TLS_default)"
  by (simp add: tls_step_def)

lemma Config_Validate_required:
  "required_fields c \<Longrightarrow>
   Config_Validate D c =
     (case tls_step (D, TLS c) of
        (Some err, D', r') \<Rightarrow> (Some err, D', c\<lparr>TLS := r'\<rparr>)
      | (None, D', r') \<Rightarrow>
          (case AuthConfig_Validate (AuthorityConfig c) of
             (err, a') \<Rightarrow> (err, D', c\<lparr>TLS := r', AuthorityConfig := a'\<rparr>)))"
  by (simp add: Config_Validate_def required_fields_def)

text \<open>
  The three assignments of the code compute \<open>tls_defaulted\<close>, on an object of the
  configuration's own and on the package variable itself when \<open>c.TLS\<close> points at it.
\<close>

lemma tls_steps_own:
  "tls_min_step (tls_max_step (tls_cipher_step (D, TLS_own t))) = (D, TLS_own (tls_defaulted D t))"
  by (simp add: tls_min_step_def tls_max_step_def tls_cipher_step_def tls_get_def tls_upd_def
      tls_defaulted_def Let_def)

lemma tls_steps_default:
  "tls_min_step (tls_max_step (tls_cipher_step (D, TLS_default))) = (tls_defaulted D D, TLS_default)"
  by (simp add: tls_min_step_def tls_max_step_def tls_cipher_step_def tls_get_def tls_upd_def
      tls_defaulted_def Let_def)

lemma tls_step_present:
  "r \<noteq> TLS_nil \<Longrightarrow>
   (case tls_step (D, r) of (err, D', r') \<Rightarrow>
      (if MinVersion (tls_defaulted D (tls_get D r)) > MaxVersion (tls_defaulted D (tls_get D r))
       then err = Some (New ''tls minVersion cannot exceed tls maxVersion'')
            \<and> tls_get D' r' = tls_defaulted D (tls_get D r)
       else err = None
            \<and> tls_get D' r' = (tls_defaulted D (tls_get D r))
                 \<lparr>Renegotiation := Renegotiation (tls_get D r) \<or> Renegotiation D\<rparr>))"
proof (cases r)
  case TLS_nil
  assume "r \<noteq> TLS_nil"
  with TLS_nil show ?thesis by simp
next
  case TLS_default
  have "tls_step (D, TLS_default) =
      (if MinVersion (tls_defaulted D D) > MaxVersion (tls_defaulted D D)
       then (Some (New ''tls minVersion cannot exceed tls maxVersion''), tls_defaulted D D, TLS_default)
       else (None, (tls_defaulted D D)\<lparr>Renegotiation := Renegotiation D \<or> Renegotiation D\<rparr>,
             TLS_default))"
    by (simp add: tls_step_def tls_steps_default Let_def tls_renegotiation_step_def tls_upd_def
        tls_get_def tls_defaulted_def)
  then show ?thesis
    unfolding TLS_default by (simp add: tls_get_def)
next
  case (TLS_own t)
  have "tls_step (D, TLS_own t) =
      (if MinVersion (tls_defaulted D t) > MaxVersion (tls_defaulted D t)
       then (Some (New ''tls minVersion cannot exceed tls maxVersion''), D, TLS_own (tls_defaulted D t))
       else (None, D, TLS_own ((tls_defaulted D t)\<lparr>Renegotiation := Renegotiation t \<or> Renegotiation D\<rparr>)))"
    by (simp add: tls_step_def tls_steps_own Let_def tls_renegotiation_step_def tls_upd_def
        tls_get_def tls_defaulted_def)
  then show ?thesis
    unfolding TLS_own by (simp add: tls_get_def)
qed

lemma tls_step_not_nil: "r \<noteq> TLS_nil \<Longrightarrow> snd (snd (tls_step (D, r))) \<noteq> TLS_nil"
  by (cases r)
     (auto simp: tls_step_def tls_steps_own tls_steps_default tls_renegotiation_step_def
                 tls_upd_def Let_def split: if_splits)

subsection \<open>The authority policy\<close>

text \<open>
  Claim C9. \<open>AuthConfig.Validate\<close> fails with "authority cannot be undefined" on an absent
  (nil) policy and with the different error "authority.provisioners cannot be empty" on
  a policy whose provisioners are empty; on a policy with a provisioner it succeeds, and
  an absent template is replaced by the empty template object while a present one is
  kept. \<open>Config.Validate\<close> reports the error of the policy's validation once the checks
  before it have passed.
\<close>

theorem AuthConfig_Validate_cases:
  "fst (AuthConfig_Validate None) = Some (New ''authority cannot be undefined'')
   \<and> (len (Provisioners a) = 0 \<longrightarrow>
        fst (AuthConfig_Validate (Some a)) = Some (New ''authority.provisioners cannot be empty''))
   \<and> New ''authority cannot be undefined'' \<noteq> New ''authority.provisioners cannot be empty''
   \<and> (len (Provisioners a) \<noteq> 0 \<longrightarrow>
        AuthConfig_Validate (Some a) =
          (None, Some (a\<lparr>Template :=
                            Some (case Template a of None \<Rightarrow> empty_ASN1DN | Some t \<Rightarrow> t)\<rparr>)))
   \<and> (required_fields c \<and> fst (tls_step (D, TLS c)) = None \<longrightarrow>
        fst (Config_Validate D c) = fst (AuthConfig_Validate (AuthorityConfig c)))"
  by (auto simp: AuthConfig_Validate_def Config_Validate_required split: prod.splits option.splits)

theorem AuthConfig_Validate_cases_witness:
  "fst (AuthConfig_Validate (Some (mk_AuthConfig (Some []) None)))
     = Some (New ''authority.provisioners cannot be empty'')
   \<and> fst (AuthConfig_Validate (Some (mk_AuthConfig None None)))
     = Some (New ''authority.provisioners cannot be empty'')
   \<and> AuthConfig_Validate (Some (mk_AuthConfig one_Provisioner None))
     = (None, Some (mk_AuthConfig one_Provisioner (Some empty_ASN1DN)))
   \<and> fst (Config_Validate DefaultTLSOptions
        (mk_Config '':443'' ''root.crt'' ''ca.crt'' ''ca.key'' (Some [''ca.example.com'']) TLS_nil None))
     = Some (New ''authority cannot be undefined'')"
  using AuthConfig_Validate_cases [of "mk_AuthConfig (Some []) None"
      "mk_Config '':443'' ''root.crt'' ''ca.crt'' ''ca.key'' (Some [''ca.example.com'']) TLS_nil None"
      DefaultTLSOptions]
    AuthConfig_Validate_cases [of "mk_AuthConfig None None"]
    AuthConfig_Validate_cases [of "mk_AuthConfig one_Provisioner None"]
  by (simp add: mk_Config_def mk_AuthConfig_def one_Provisioner_def len_def required_fields_def
      tls_step_def AuthConfig_Validate_def)

subsection \<open>The order of the checks\<close>

text \<open>
  Claim C5. \<open>Config.Validate\<close> checks, in this order, that the address, the root, the
  intermediate certificate path, the intermediate key path and the DNS names are not
  empty, then runs the TLS step, then the validation of the authority policy. The first
  check that fails gives the error, and nothing after it runs: a failing required-field
  check leaves the document and the default policy as they were, whatever the later
  fields hold; a failing TLS step gives its error whatever the authority policy is, and
  leaves the authority policy untouched; only when the TLS step passes is the error that
  of the authority policy. A document with address, root, certificate path and key path
  all empty fails on the address.
\<close>

theorem Config_Validate_order:
  "(Address c = '''' \<longrightarrow> Config_Validate D c = (Some (New ''address cannot be empty''), D, c))
   \<and> (Address c \<noteq> '''' \<and> Root c = '''' \<longrightarrow>
        Config_Validate D c = (Some (New ''root cannot be empty''), D, c))
   \<and> (Address c \<noteq> '''' \<and> Root c \<noteq> '''' \<and> IntermediateCert c = '''' \<longrightarrow>
        Config_Validate D c = (Some (New ''crt cannot be empty''), D, c))
   \<and> (Address c \<noteq> '''' \<and> Root c \<noteq> '''' \<and> IntermediateCert c \<noteq> '''' \<and> IntermediateKey c = '''' \<longrightarrow>
        Config_Validate D c = (Some (New ''key cannot be empty''), D, c))
   \<and> (Address c \<noteq> '''' \<and> Root c \<noteq> '''' \<and> IntermediateCert c \<noteq> '''' \<and> IntermediateKey c \<noteq> ''''
        \<and> len (DNSNames c) = 0 \<longrightarrow>
        Config_Validate D c = (Some (New ''dnsNames cannot be empty''), D, c))
   \<and> (required_fields c \<and> fst (tls_step (D, TLS c)) \<noteq> None \<longrightarrow>
        fst (Config_Validate D c) = fst (tls_step (D, TLS c))
        \<and> AuthorityConfig (snd (snd (Config_Validate D c))) = AuthorityConfig c)
   \<and> (required_fields c \<and> fst (tls_step (D, TLS c)) = None \<longrightarrow>
        fst (Config_Validate D c) = fst (AuthConfig_Validate (AuthorityConfig c)))
   \<and> (Address c = '''' \<and> Root c = '''' \<and> IntermediateCert c = '''' \<and> IntermediateKey c = '''' \<longrightarrow>
        fst (Config_Validate D c) = Some (New ''address cannot be empty''))"
proof -
  have tls: "required_fields c \<Longrightarrow> fst (tls_step (D, TLS c)) \<noteq> None \<Longrightarrow>
      fst (Config_Validate D c) = fst (tls_step (D, TLS c))
        \<and> AuthorityConfig (snd (snd (Config_Validate D c))) = AuthorityConfig c"
    by (auto simp: Config_Validate_required split: prod.splits option.splits)
  have auth: "required_fields c \<Longrightarrow> fst (tls_step (D, TLS c)) = None \<Longrightarrow>
      fst (Config_Validate D c) = fst (AuthConfig_Validate (AuthorityConfig c))"
    by (auto simp: Config_Validate_required split: prod.splits option.splits)
  show ?thesis
    using tls auth by (simp add: Config_Validate_def)
qed

theorem Config_Validate_order_witness:
  "fst (Config_Validate DefaultTLSOptions (mk_Config '''' '''' '''' '''' None TLS_nil None))
     = Some (New ''address cannot be empty'')
   \<and> fst (Config_Validate DefaultTLSOptions (mk_Config '':443'' '''' '''' '''' None TLS_nil None))
     = Some (New ''root cannot be empty'')
   \<and> fst (Config_Validate DefaultTLSOptions (mk_Config '':443'' ''root.crt'' '''' '''' None TLS_nil None))
     = Some (New ''crt cannot be empty'')
   \<and> fst (Config_Validate DefaultTLSOptions (mk_Config '':443'' ''root.crt'' ''ca.crt'' '''' None TLS_nil None))
     = Some (New ''key cannot be empty'')
   \<and> fst (Config_Validate DefaultTLSOptions
            (mk_Config '':443'' ''root.crt'' ''ca.crt'' ''ca.key'' None
               (TLS_own (mk_TLSOptions None float64_1_3 float64_1_2 False)) None))
     = Some (New ''dnsNames cannot be empty'')
   \<and> fst (Config_Validate DefaultTLSOptions
            (mk_Config '':443'' ''root.crt'' ''ca.crt'' ''ca.key'' (Some [''ca.example.com''])
               (TLS_own (mk_TLSOptions None float64_1_3 float64_1_2 False)) None))
     = Some (New ''tls minVersion cannot exceed tls maxVersion'')
   \<and> fst (Config_Validate DefaultTLSOptions
            (mk_Config '':443'' ''root.crt'' ''ca.crt'' ''ca.key'' (Some [''ca.example.com''])
               (TLS_own (mk_TLSOptions None float64_1_2 float64_1_2 False)) None))
     = Some (New ''authority cannot be undefined'')"
  using Config_Validate_order [of "mk_Config '''' '''' '''' '''' None TLS_nil None" DefaultTLSOptions]
    Config_Validate_order [of "mk_Config '':443'' '''' '''' '''' None TLS_nil None" DefaultTLSOptions]
    Config_Validate_order [of "mk_Config '':443'' ''root.crt'' '''' '''' None TLS_nil None" DefaultTLSOptions]
    Config_Validate_order [of "mk_Config '':443'' ''root.crt'' ''ca.crt'' '''' None TLS_nil None" DefaultTLSOptions]
    Config_Validate_order [of "mk_Config '':443'' ''root.crt'' ''ca.crt'' ''ca.key'' None
               (TLS_own (mk_TLSOptions None float64_1_3 float64_1_2 False)) None" DefaultTLSOptions]
    Config_Validate_order [of "mk_Config '':443'' ''root.crt'' ''ca.crt'' ''ca.key'' (Some [''ca.example.com''])
               (TLS_own (mk_TLSOptions None float64_1_3 float64_1_2 False)) None" DefaultTLSOptions]
    Config_Validate_order [of "mk_Config '':443'' ''root.crt'' ''ca.crt'' ''ca.key'' (Some [''ca.example.com''])
               (TLS_own (mk_TLSOptions None float64_1_2 float64_1_2 False)) None" DefaultTLSOptions]
  by (simp add: mk_Config_def mk_TLSOptions_def len_def required_fields_def tls_step_def
      tls_steps_own tls_defaulted_def tls_get_def AuthConfig_Validate_def
      float64_1_2_def float64_1_3_def)

subsection \<open>TLS defaulting\<close>

text \<open>
  Claim C6. Once the required fields are there: when the TLS policy is present,
  \<open>Config.Validate\<close> takes the cipher suites from the built-in default if they are empty
  and the maximal version from the built-in default if it is zero, then the minimal
  version, if zero, from the maximal version already defaulted; it fails if the minimal
  version then exceeds the maximal one; otherwise the renegotiation flag becomes the
  disjunction of the configured flag and the default's. When the TLS policy is absent
  the document afterwards points at the built-in default policy, which is unchanged: with
  the default as declared, the minimal version is the default's maximal version, the
  cipher suites are the default's and renegotiation is off.
\<close>

theorem Config_Validate_TLS:
  "required_fields c \<longrightarrow>
   (case Config_Validate D c of (err, D', c') \<Rightarrow>
      (TLS c \<noteq> TLS_nil \<longrightarrow>
         (let t = tls_get D (TLS c);
              cs = (if len (CipherSuites t) = 0 then CipherSuites D else CipherSuites t);
              mx = (if MaxVersion t = 0 then MaxVersion D else MaxVersion t);
              mn = (if MinVersion t = 0 then mx else MinVersion t)
          in if mn > mx
             then err = Some (New ''tls minVersion cannot exceed tls maxVersion'')
             else TLS c' \<noteq> TLS_nil \<and>
                  tls_get D' (TLS c') =
                    \<lparr>CipherSuites = cs, MinVersion = mn, MaxVersion = mx,
                     Renegotiation = (Renegotiation t \<or> Renegotiation D)\<rparr>))
      \<and> (TLS c = TLS_nil \<longrightarrow>
           TLS c' = TLS_default \<and> D' = D \<and> tls_get D' (TLS c') = D
           \<and> (D = DefaultTLSOptions \<longrightarrow>
                MinVersion (tls_get D' (TLS c')) = MaxVersion DefaultTLSOptions
                \<and> CipherSuites (tls_get D' (TLS c')) = CipherSuites DefaultTLSOptions
                \<and> \<not> Renegotiation (tls_get D' (TLS c')))))"
proof (intro impI)
  assume rq: "required_fields c"
  obtain err D' c' where cv: "Config_Validate D c = (err, D', c')"
    by (cases "Config_Validate D c")
  have nil: "TLS c = TLS_nil \<Longrightarrow> TLS c' = TLS_default \<and> D' = D"
    using cv rq by (auto simp: Config_Validate_required tls_step_nil split: prod.splits)
  have pres: "TLS c \<noteq> TLS_nil \<Longrightarrow>
     (if MinVersion (tls_defaulted D (tls_get D (TLS c))) > MaxVersion (tls_defaulted D (tls_get D (TLS c)))
       then err = Some (New ''tls minVersion cannot exceed tls maxVersion'')
       else TLS c' \<noteq> TLS_nil \<and> tls_get D' (TLS c') = (tls_defaulted D (tls_get D (TLS c)))
                 \<lparr>Renegotiation := Renegotiation (tls_get D (TLS c)) \<or> Renegotiation D\<rparr>)"
  proof -
    assume n: "TLS c \<noteq> TLS_nil"
    obtain e1 D1 r1 where ts: "tls_step (D, TLS c) = (e1, D1, r1)"
      by (cases "tls_step (D, TLS c)")
    have r1: "r1 \<noteq> TLS_nil"
      using tls_step_not_nil [OF n, of D] ts by simp
    show ?thesis
      using tls_step_present [OF n, of D] ts cv rq r1
      by (auto simp: Config_Validate_required split: prod.splits option.splits if_splits)
  qed
  show "case Config_Validate D c of (err, D', c') \<Rightarrow>
      (TLS c \<noteq> TLS_nil \<longrightarrow>
         (let t = tls_get D (TLS c);
              cs = (if len (CipherSuites t) = 0 then CipherSuites D else CipherSuites t);
              mx = (if MaxVersion t = 0 then MaxVersion D else MaxVersion t);
              mn = (if MinVersion t = 0 then mx else MinVersion t)
          in if mn > mx
             then err = Some (New ''tls minVersion cannot exceed tls maxVersion'')
             else TLS c' \<noteq> TLS_nil \<and>
                  tls_get D' (TLS c') =
                    \<lparr>CipherSuites = cs, MinVersion = mn, MaxVersion = mx,
                     Renegotiation = (Renegotiation t \<or> Renegotiation D)\<rparr>))
      \<and> (TLS c = TLS_nil \<longrightarrow>
           TLS c' = TLS_default \<and> D' = D \<and> tls_get D' (TLS c') = D
           \<and> (D = DefaultTLSOptions \<longrightarrow>
                MinVersion (tls_get D' (TLS c')) = MaxVersion DefaultTLSOptions
                \<and> CipherSuites (tls_get D' (TLS c')) = CipherSuites DefaultTLSOptions
                \<and> \<not> Renegotiation (tls_get D' (TLS c'))))"
    unfolding cv prod.case
  proof (intro conjI impI)
    assume n: "TLS c \<noteq> TLS_nil"
    show "let t = tls_get D (TLS c);
              cs = (if len (CipherSuites t) = 0 then CipherSuites D else CipherSuites t);
              mx = (if MaxVersion t = 0 then MaxVersion D else MaxVersion t);
              mn = (if MinVersion t = 0 then mx else MinVersion t)
          in if mn > mx
             then err = Some (New ''tls minVersion cannot exceed tls maxVersion'')
             else TLS c' \<noteq> TLS_nil \<and>
                  tls_get D' (TLS c') =
                    \<lparr>CipherSuites = cs, MinVersion = mn, MaxVersion = mx,
                     Renegotiation = (Renegotiation t \<or> Renegotiation D)\<rparr>"
      using pres [OF n] by (simp add: tls_defaulted_def Let_def)
  next
    assume "TLS c = TLS_nil"
    then show "TLS c' = TLS_default" "D' = D" "tls_get D' (TLS c') = D"
      using nil by (simp_all add: tls_get_def)
  next
    assume "TLS c = TLS_nil" and d: "D = DefaultTLSOptions"
    then have g: "tls_get D' (TLS c') = DefaultTLSOptions"
      using nil by (simp add: tls_get_def)
    show "MinVersion (tls_get D' (TLS c')) = MaxVersion DefaultTLSOptions"
      unfolding g by (simp add: DefaultTLSOptions_def)
    show "CipherSuites (tls_get D' (TLS c')) = CipherSuites DefaultTLSOptions"
      unfolding g by simp
    show "\<not> Renegotiation (tls_get D' (TLS c'))"
      unfolding g by (simp add: DefaultTLSOptions_def)
  qed
qed

theorem Config_Validate_TLS_witness:
  "(case Config_Validate DefaultTLSOptions
           (mk_Config '':443'' ''root.crt'' ''ca.crt'' ''ca.key'' (Some [''ca.example.com'']) TLS_nil
              (Some (mk_AuthConfig one_Provisioner None))) of
      (err, D', c') \<Rightarrow>
        err = None \<and> TLS c' = TLS_default \<and> D' = DefaultTLSOptions
        \<and> MinVersion (tls_get D' (TLS c')) = float64_1_2 \<and> \<not> Renegotiation (tls_get D' (TLS c')))
   \<and> (case Config_Validate DefaultTLSOptions
           (mk_Config '':443'' ''root.crt'' ''ca.crt'' ''ca.key'' (Some [''ca.example.com''])
              (TLS_own (mk_TLSOptions (Some []) 0 0 True))
              (Some (mk_AuthConfig one_Provisioner None))) of
      (err, D', c') \<Rightarrow>
        err = None \<and> D' = DefaultTLSOptions
        \<and> TLS c' = TLS_own (mk_TLSOptions (CipherSuites DefaultTLSOptions) float64_1_2 float64_1_2 True))
   \<and> (case Config_Validate DefaultTLSOptions
           (mk_Config '':443'' ''root.crt'' ''ca.crt'' ''ca.key'' (Some [''ca.example.com''])
              (TLS_own (mk_TLSOptions (Some [''TLS_X'']) float64_1_3 0 False))
              (Some (mk_AuthConfig one_Provisioner None))) of
      (err, D', c') \<Rightarrow>
        err = Some (New ''tls minVersion cannot exceed tls maxVersion''))
   \<and> (case Config_Validate DefaultTLSOptions
           (mk_Config '':443'' ''root.crt'' ''ca.crt'' ''ca.key'' (Some [''ca.example.com''])
              TLS_default (Some (mk_AuthConfig one_Provisioner None))) of
      (err, D', c') \<Rightarrow>
        err = None \<and> TLS c' = TLS_default \<and> D' = DefaultTLSOptions)"
  using Config_Validate_TLS [of "mk_Config '':443'' ''root.crt'' ''ca.crt'' ''ca.key''
              (Some [''ca.example.com'']) TLS_default
              (Some (mk_AuthConfig one_Provisioner None))" DefaultTLSOptions]
    Config_Validate_TLS [of "mk_Config '':443'' ''root.crt'' ''ca.crt'' ''ca.key'' (Some [''ca.example.com'']) TLS_nil
              (Some (mk_AuthConfig one_Provisioner None))" DefaultTLSOptions]
    Config_Validate_TLS [of "mk_Config '':443'' ''root.crt'' ''ca.crt'' ''ca.key'' (Some [''ca.example.com''])
              (TLS_own (mk_TLSOptions (Some []) 0 0 True))
              (Some (mk_AuthConfig one_Provisioner None))" DefaultTLSOptions]
    Config_Validate_TLS [of "mk_Config '':443'' ''root.crt'' ''ca.crt'' ''ca.key'' (Some [''ca.example.com''])
              (TLS_own (mk_TLSOptions (Some [''TLS_X'']) float64_1_3 0 False))
              (Some (mk_AuthConfig one_Provisioner None))" DefaultTLSOptions]
  by (simp add: Config_Validate_def mk_Config_def mk_TLSOptions_def mk_AuthConfig_def one_Provisioner_def
      len_def tls_step_def tls_steps_own tls_steps_default tls_defaulted_def tls_get_def
      tls_upd_def tls_renegotiation_step_def AuthConfig_Validate_def DefaultTLSOptions_def
      Let_def float64_1_2_def float64_1_3_def)

subsection \<open>What validation leaves alone\<close>

text \<open>
  Claim C10. When \<open>Config.Validate\<close> succeeds, the document afterwards differs from the
  document before only in its TLS policy field and in the template of its authority
  policy, which is the empty template if it was absent and the old one otherwise: root,
  intermediate certificate path, intermediate key path, address, DNS names, logger,
  monitoring and password are unchanged, and so are the provisioners and the two
  durations of the authority policy. When a required-field check fails, validation fails
  and neither the document nor the default policy is changed.
\<close>

theorem Config_Validate_frame:
  "(fst (Config_Validate D c) = None \<longrightarrow>
      (let c' = snd (snd (Config_Validate D c)) in
       Root c' = Root c \<and> IntermediateCert c' = IntermediateCert c
       \<and> IntermediateKey c' = IntermediateKey c \<and> Address c' = Address c
       \<and> DNSNames c' = DNSNames c \<and> Logger c' = Logger c \<and> Monitoring c' = Monitoring c
       \<and> Password c' = Password c
       \<and> (\<exists>a a'. AuthorityConfig c = Some a \<and> AuthorityConfig c' = Some a'
            \<and> Provisioners a' = Provisioners a
            \<and> MinCertDuration a' = MinCertDuration a \<and> MaxCertDuration a' = MaxCertDuration a
            \<and> Template a' = Some (case Template a of None \<Rightarrow> empty_ASN1DN | Some t \<Rightarrow> t)
            \<and> a' = a\<lparr>Template := Template a'\<rparr>)
       \<and> c' = c\<lparr>TLS := TLS c', AuthorityConfig := AuthorityConfig c'\<rparr>))
   \<and> (\<not> required_fields c \<longrightarrow>
        fst (Config_Validate D c) \<noteq> None \<and> snd (Config_Validate D c) = (D, c))"
proof (intro conjI impI)
  assume ok: "fst (Config_Validate D c) = None"
  have rq: "required_fields c"
    using ok by (auto simp: Config_Validate_def required_fields_def split: if_splits)
  obtain e1 D1 r1 where ts: "tls_step (D, TLS c) = (e1, D1, r1)"
    by (cases "tls_step (D, TLS c)")
  have e1: "e1 = None"
    using ok rq ts by (cases e1) (simp_all add: Config_Validate_required)
  obtain e2 a2 where av: "AuthConfig_Validate (AuthorityConfig c) = (e2, a2)"
    by (cases "AuthConfig_Validate (AuthorityConfig c)")
  have cv: "Config_Validate D c = (e2, D1, c\<lparr>TLS := r1, AuthorityConfig := a2\<rparr>)"
    using rq ts e1 av by (simp add: Config_Validate_required)
  have e2: "e2 = None"
    using ok cv by simp
  obtain a where a: "AuthorityConfig c = Some a" "len (Provisioners a) \<noteq> 0"
    using av e2 by (auto simp: AuthConfig_Validate_def split: option.splits if_splits)
  have a2: "a2 = Some (a\<lparr>Template := Some (case Template a of None \<Rightarrow> empty_ASN1DN | Some t \<Rightarrow> t)\<rparr>)"
  proof (cases "Template a")
    case None
    then show ?thesis using av a by (simp add: AuthConfig_Validate_def)
  next
    case (Some t)
    then have same: "a\<lparr>Template := Some t\<rparr> = a" by (cases a) simp
    have "a2 = Some a" using av a Some by (simp add: AuthConfig_Validate_def)
    then show ?thesis by (simp only: Some option.case same)
  qed
  show "let c' = snd (snd (Config_Validate D c)) in
       Root c' = Root c \<and> IntermediateCert c' = IntermediateCert c
       \<and> IntermediateKey c' = IntermediateKey c \<and> Address c' = Address c
       \<and> DNSNames c' = DNSNames c \<and> Logger c' = Logger c \<and> Monitoring c' = Monitoring c
       \<and> Password c' = Password c
       \<and> (\<exists>a a'. AuthorityConfig c = Some a \<and> AuthorityConfig c' = Some a'
            \<and> Provisioners a' = Provisioners a
            \<and> MinCertDuration a' = MinCertDuration a \<and> MaxCertDuration a' = MaxCertDuration a
            \<and> Template a' = Some (case Template a of None \<Rightarrow> empty_ASN1DN | Some t \<Rightarrow> t)
            \<and> a' = a\<lparr>Template := Template a'\<rparr>)
       \<and> c' = c\<lparr>TLS := TLS c', AuthorityConfig := AuthorityConfig c'\<rparr>"
    unfolding cv a2 using a(1) by (simp add: Let_def)
next
  assume "\<not> required_fields c"
  then show "fst (Config_Validate D c) \<noteq> None"
    by (auto simp: Config_Validate_def required_fields_def)
next
  assume "\<not> required_fields c"
  then show "snd (Config_Validate D c) = (D, c)"
    by (auto simp: Config_Validate_def required_fields_def)
qed

theorem Config_Validate_frame_witness:
  "Config_Validate DefaultTLSOptions
     (mk_Config '':443'' ''root.crt'' ''ca.crt'' ''ca.key'' (Some [''ca.example.com'']) TLS_nil
        (Some (mk_AuthConfig one_Provisioner None)))
   = (None, DefaultTLSOptions,
      mk_Config '':443'' ''root.crt'' ''ca.crt'' ''ca.key'' (Some [''ca.example.com'']) TLS_default
        (Some (mk_AuthConfig one_Provisioner (Some empty_ASN1DN))))
   \<and> Config_Validate DefaultTLSOptions
        (mk_Config '':443'' ''root.crt'' ''ca.crt'' ''ca.key'' (Some []) TLS_nil None)
      = (Some (New ''dnsNames cannot be empty''), DefaultTLSOptions,
         mk_Config '':443'' ''root.crt'' ''ca.crt'' ''ca.key'' (Some []) TLS_nil None)"
  using Config_Validate_frame [of DefaultTLSOptions
      "mk_Config '':443'' ''root.crt'' ''ca.crt'' ''ca.key'' (Some [''ca.example.com'']) TLS_nil
        (Some (mk_AuthConfig one_Provisioner None))"]
    Config_Validate_frame [of DefaultTLSOptions
      "mk_Config '':443'' ''root.crt'' ''ca.crt'' ''ca.key'' (Some []) TLS_nil None"]
  by (simp add: Config_Validate_def mk_Config_def mk_AuthConfig_def one_Provisioner_def len_def
      tls_step_def AuthConfig_Validate_def)

section \<open>Properties of the wire codec\<close>




lemma SSHCertificate_decode_empty:
  "json_Unmarshal_string L data = Inr '''' \<Longrightarrow>
   SSHCertificate_UnmarshalJSON L c data = (None, c\<lparr>SSHCertificate.Certificate := None\<rparr>)"
  by (simp add: SSHCertificate_UnmarshalJSON_def)

lemma SSHPublicKey_decode_empty:
  "json_Unmarshal_string L data = Inr '''' \<Longrightarrow>
   SSHPublicKey_UnmarshalJSON L p data = (None, p\<lparr>SSHPublicKey.PublicKey := None\<rparr>)"
  by (simp add: SSHPublicKey_UnmarshalJSON_def)








lemma ex_Decode_key: "DecodeString ex_lib ''AAc='' = Inr [0, 7]"
  by (simp add: ex_lib_def b64_alphabet_def)


lemma ex_Parse_key: "ParsePublicKey ex_lib [0, 7] = Inr (ex_key [7])"
  by (simp add: ex_lib_def ex_ParsePublicKey_def)



lemma ex_json_key: "json_Unmarshal_string ex_lib ([CHR 0x22] @ ''AAc='' @ [CHR 0x22]) = Inr ''AAc=''"
  by (simp add: ex_lib_def ex_json_Unmarshal_string_def)

lemma ex_json_empty: "json_Unmarshal_string ex_lib [CHR 0x22, CHR 0x22] = Inr ''''"
  by (simp add: ex_lib_def ex_json_Unmarshal_string_def)





text \<open>
  Claim C3. When the data is JSON that the library unmarshals to the empty string, as the
  JSON empty string is, \<open>UnmarshalJSON\<close> of the certificate container sets the
  certificate to nil and returns no error, and \<open>UnmarshalJSON\<close> of the public-key
  container sets the key to nil and returns no error.
\<close>

theorem UnmarshalJSON_empty_string:
  "json_Unmarshal_string L data = Inr '''' \<longrightarrow>
     SSHCertificate_UnmarshalJSON L c data = (None, c\<lparr>SSHCertificate.Certificate := None\<rparr>)
     \<and> SSHPublicKey_UnmarshalJSON L p data = (None, p\<lparr>SSHPublicKey.PublicKey := None\<rparr>)"
  by (simp add: SSHCertificate_decode_empty SSHPublicKey_decode_empty)

theorem UnmarshalJSON_empty_string_witness:
  "json_Unmarshal_string ex_lib [CHR 0x22, CHR 0x22] = Inr ''''
   \<and> SSHCertificate_UnmarshalJSON ex_lib
        \<lparr>SSHCertificate.Certificate = Some (ex_cert [7] UserCert (Some [''alice'']))\<rparr>
        [CHR 0x22, CHR 0x22]
       = (None, \<lparr>SSHCertificate.Certificate = None\<rparr>)
   \<and> SSHPublicKey_UnmarshalJSON ex_lib \<lparr>SSHPublicKey.PublicKey = Some (ex_key [7])\<rparr>
        [CHR 0x22, CHR 0x22]
       = (None, \<lparr>SSHPublicKey.PublicKey = None\<rparr>)"
  using UnmarshalJSON_empty_string [of ex_lib "[CHR 0x22, CHR 0x22]"
      "\<lparr>SSHCertificate.Certificate = Some (ex_cert [7] UserCert (Some [''alice'']))\<rparr>"
      "\<lparr>SSHPublicKey.PublicKey = Some (ex_key [7])\<rparr>"]
    ex_json_empty
  by simp

text \<open>
  Claim C4. Decoding, by the certificate container, a non-empty text whose base64-decoded
  bytes parse as a public key that is not a certificate fails and leaves the receiver as
  it was; the message of the error is "error decoding ssh certificate: ", the Go type of
  the key found, " is not an *ssh.Certificate". When the base64 decoding fails, or the
  parsing of the bytes fails, or the JSON decoding fails, the error wraps the library's
  error as its cause.
\<close>

theorem SSHCertificate_UnmarshalJSON_errors:
  "(json_Unmarshal_string L data = Inr s \<and> s \<noteq> '''' \<and> DecodeString L s = Inr bs
      \<and> ParsePublicKey L bs = Inr (PlainKey k) \<longrightarrow>
      (\<exists>e. SSHCertificate_UnmarshalJSON L c data = (Some e, c)
           \<and> Error e = ''error decoding ssh certificate: '' @ go_type k
                          @ '' is not an *ssh.Certificate''))
   \<and> (json_Unmarshal_string L data = Inr s \<and> s \<noteq> '''' \<and> DecodeString L s = Inl err \<longrightarrow>
        SSHCertificate_UnmarshalJSON L c data = (Some (Wrap err ''error decoding ssh certificate''), c))
   \<and> (json_Unmarshal_string L data = Inr s \<and> s \<noteq> '''' \<and> DecodeString L s = Inr bs
        \<and> ParsePublicKey L bs = Inl err \<longrightarrow>
        SSHCertificate_UnmarshalJSON L c data = (Some (Wrap err ''error parsing ssh certificate''), c))
   \<and> (json_Unmarshal_string L data = Inl err \<longrightarrow>
        SSHCertificate_UnmarshalJSON L c data = (Some (Wrap err ''error decoding certificate''), c))"
  by (simp add: SSHCertificate_UnmarshalJSON_def)

lemma ex_json_bad: "json_Unmarshal_string ex_lib ([CHR 0x22] @ ''@@@@'' @ [CHR 0x22]) = Inr ''@@@@''"
  by (simp add: ex_lib_def ex_json_Unmarshal_string_def)

lemma ex_Decode_bad: "DecodeString ex_lib ''@@@@'' = Inl (New ''illegal base64 data'')"
  by (simp add: ex_lib_def b64_alphabet_def)

lemma ex_json_unknown: "json_Unmarshal_string ex_lib ([CHR 0x22] @ ''CQc='' @ [CHR 0x22]) = Inr ''CQc=''"
  by (simp add: ex_lib_def ex_json_Unmarshal_string_def)

lemma ex_Decode_unknown: "DecodeString ex_lib ''CQc='' = Inr [9, 7]"
  by (simp add: ex_lib_def b64_alphabet_def)

lemma ex_Parse_unknown: "ParsePublicKey ex_lib [9, 7] = Inl (New ''ssh: unknown key algorithm'')"
  by (simp add: ex_lib_def ex_ParsePublicKey_def)

lemma ex_json_number: "json_Unmarshal_string ex_lib ''12''
    = Inl (New ''json: cannot unmarshal into Go value of type string'')"
  by (simp add: ex_lib_def ex_json_Unmarshal_string_def)

theorem SSHCertificate_UnmarshalJSON_errors_witness:
  "(\<exists>e. SSHCertificate_UnmarshalJSON ex_lib \<lparr>SSHCertificate.Certificate = None\<rparr>
           ([CHR 0x22] @ ''AAc='' @ [CHR 0x22])
          = (Some e, \<lparr>SSHCertificate.Certificate = None\<rparr>)
        \<and> Error e = ''error decoding ssh certificate: ssh.ed25519PublicKey is not an *ssh.Certificate'')
   \<and> SSHCertificate_UnmarshalJSON ex_lib \<lparr>SSHCertificate.Certificate = None\<rparr>
        ([CHR 0x22] @ ''@@@@'' @ [CHR 0x22])
       = (Some (Wrap (New ''illegal base64 data'') ''error decoding ssh certificate''),
          \<lparr>SSHCertificate.Certificate = None\<rparr>)
   \<and> SSHCertificate_UnmarshalJSON ex_lib \<lparr>SSHCertificate.Certificate = None\<rparr>
        ([CHR 0x22] @ ''CQc='' @ [CHR 0x22])
       = (Some (Wrap (New ''ssh: unknown key algorithm'') ''error parsing ssh certificate''),
          \<lparr>SSHCertificate.Certificate = None\<rparr>)
   \<and> SSHCertificate_UnmarshalJSON ex_lib \<lparr>SSHCertificate.Certificate = None\<rparr> ''12''
       = (Some (Wrap (New ''json: cannot unmarshal into Go value of type string'')
                  ''error decoding certificate''),
          \<lparr>SSHCertificate.Certificate = None\<rparr>)"
  using SSHCertificate_UnmarshalJSON_errors [of ex_lib "[CHR 0x22] @ ''AAc='' @ [CHR 0x22]"
      "''AAc=''" "[0, 7]" "\<lparr>go_type = ''ssh.ed25519PublicKey'', material = [7]\<rparr>"
      "\<lparr>SSHCertificate.Certificate = None\<rparr>"]
    SSHCertificate_UnmarshalJSON_errors [of ex_lib "[CHR 0x22] @ ''@@@@'' @ [CHR 0x22]"
      "''@@@@''" _ _ "\<lparr>SSHCertificate.Certificate = None\<rparr>" "New ''illegal base64 data''"]
    SSHCertificate_UnmarshalJSON_errors [of ex_lib "[CHR 0x22] @ ''CQc='' @ [CHR 0x22]"
      "''CQc=''" "[9, 7]" _ "\<lparr>SSHCertificate.Certificate = None\<rparr>" "New ''ssh: unknown key algorithm''"]
    SSHCertificate_UnmarshalJSON_errors [of ex_lib "''12''" _ _ _
      "\<lparr>SSHCertificate.Certificate = None\<rparr>"
      "New ''json: cannot unmarshal into Go value of type string''"]
  unfolding ex_json_key ex_Decode_key ex_Parse_key ex_json_bad ex_Decode_bad ex_json_unknown
    ex_Decode_unknown ex_Parse_unknown ex_json_number
  by (simp add: ex_key_def)

section \<open>Properties of the sign handler\<close>

lemma Status_logOtt [simp]: "Status (logOtt w t) = Status w"
  by (simp add: logOtt_def)

lemma WriteError_fresh:
  "Status w = None \<Longrightarrow>
   Status (WriteError w e) = Some (StatusCode e) \<and> Body (WriteError w e) = Some (ErrorBody e)"
  by (simp add: WriteError_def WriteHeader_def)

lemma JSON_created_fresh:
  "Status w = None \<Longrightarrow>
   Status (JSON (WriteHeader w StatusCreated) v) = Some 201
   \<and> Body (JSON (WriteHeader w StatusCreated) v) = Some v"
  by (simp add: JSON_def WriteHeader_def StatusCreated_def)

text \<open>The handler after its four parsing stages.\<close>

lemma SSHSign_parsed:
  assumes "ReadJSON r_Body = Inr b"
    and "SSHSignRequest_Validate b = None"
    and "ParsePublicKey L (elems (SSHSignRequest.PublicKey b)) = Inr publicKey"
    and "addUser_key L b = Inr addUser"
  shows "SSHSign L ReadJSON h st w0 r_Body =
     (case Authorize h st SignSSHMethod (OTT b) of
        (Inl err, st1) \<Rightarrow>
          (WriteError (logOtt w0 (OTT b)) (Unauthorized err), st1, [Call_Authorize SignSSHMethod (OTT b)])
      | (Inr signOpts, st1) \<Rightarrow>
          (case SignSSH h st1 publicKey (opts_of b) signOpts of
             (Inl err, st2) \<Rightarrow>
               (WriteError (logOtt w0 (OTT b)) (Forbidden err), st2,
                [Call_Authorize SignSSHMethod (OTT b), Call_SignSSH publicKey (opts_of b) signOpts])
           | (Inr cert, st2) \<Rightarrow>
               if addUser_policy addUser cert then
                 (case SignSSHAddUser h st2 (the addUser) cert of
                    (Inl err, st3) \<Rightarrow>
                      (WriteError (logOtt w0 (OTT b)) (Forbidden err), st3,
                       [Call_Authorize SignSSHMethod (OTT b),
                        Call_SignSSH publicKey (opts_of b) signOpts,
                        Call_SignSSHAddUser (the addUser) cert])
                  | (Inr addUserCert, st3) \<Rightarrow>
                      (JSON (WriteHeader (logOtt w0 (OTT b)) StatusCreated)
                         (SignBody
                            \<lparr>SSHSignResponse.Certificate = \<lparr>SSHCertificate.Certificate = Some cert\<rparr>,
                             AddUserCertificate =
                               Some \<lparr>SSHCertificate.Certificate = Some addUserCert\<rparr>\<rparr>),
                       st3,
                       [Call_Authorize SignSSHMethod (OTT b),
                        Call_SignSSH publicKey (opts_of b) signOpts,
                        Call_SignSSHAddUser (the addUser) cert]))
               else
                 (JSON (WriteHeader (logOtt w0 (OTT b)) StatusCreated)
                    (SignBody
                       \<lparr>SSHSignResponse.Certificate = \<lparr>SSHCertificate.Certificate = Some cert\<rparr>,
                        AddUserCertificate = None\<rparr>),
                  st2,
                  [Call_Authorize SignSSHMethod (OTT b),
                   Call_SignSSH publicKey (opts_of b) signOpts])))"
  unfolding SSHSign_def Let_def addUser_key_def [symmetric] opts_of_def addUser_policy_def
  using assms
  by simp

text \<open>
  Claim C1. Take a request on a fresh response writer that passes reading, validation,
  the parsing of both keys and authorization, and for which \<open>SignSSH\<close> returns a
  certificate. Then \<open>SignSSHAddUser\<close> is among the calls made on the authority if and
  only if the add-user policy holds: an add-user key was supplied (which is the case
  exactly when the request's addUserPublicKey is not nil), the certificate's type is the
  user type, and it has exactly one valid principal. When the policy holds,
  \<open>SignSSHAddUser\<close> is called last, on the supplied key and the certificate, and its
  result decides: a certificate gives status 201 with that certificate as
  addUserCertificate, an error gives 403. When the policy does not hold, the response is
  201 with addUserCertificate absent, after two calls only. So whenever a sign response is
  written, its addUserCertificate is populated if and only if the policy holds.
\<close>

theorem SSHSign_addUser:
  assumes fresh: "Status w0 = None"
    and rd: "ReadJSON r_Body = Inr b"
    and val: "SSHSignRequest_Validate b = None"
    and pk: "ParsePublicKey L (elems (SSHSignRequest.PublicKey b)) = Inr publicKey"
    and au: "addUser_key L b = Inr addUser"
    and az: "Authorize h st SignSSHMethod (OTT b) = (Inr signOpts, st1)"
    and sg: "SignSSH h st1 publicKey (opts_of b) signOpts = (Inr cert, st2)"
  shows "case SSHSign L ReadJSON h st w0 r_Body of (w, st', calls) \<Rightarrow>
     ((\<exists>x \<in> set calls. is_Call_SignSSHAddUser x) \<longleftrightarrow> addUser_policy addUser cert)
     \<and> (addUser \<noteq> None \<longleftrightarrow> AddUserPublicKey b \<noteq> None)
     \<and> (addUser_policy addUser cert \<longrightarrow>
          (\<exists>k. addUser = Some k
             \<and> calls = [Call_Authorize SignSSHMethod (OTT b),
                        Call_SignSSH publicKey (opts_of b) signOpts,
                        Call_SignSSHAddUser k cert]
             \<and> (case SignSSHAddUser h st2 k cert of
                  (Inr addUserCert, st3) \<Rightarrow>
                    Status w = Some 201
                    \<and> Body w = Some (SignBody
                         \<lparr>SSHSignResponse.Certificate = \<lparr>SSHCertificate.Certificate = Some cert\<rparr>,
                          AddUserCertificate =
                            Some \<lparr>SSHCertificate.Certificate = Some addUserCert\<rparr>\<rparr>)
                | (Inl err, st3) \<Rightarrow>
                    Status w = Some 403 \<and> Body w = Some (ErrorBody (Forbidden err)))))
     \<and> (\<not> addUser_policy addUser cert \<longrightarrow>
          calls = [Call_Authorize SignSSHMethod (OTT b), Call_SignSSH publicKey (opts_of b) signOpts]
          \<and> st' = st2 \<and> Status w = Some 201
          \<and> Body w = Some (SignBody
               \<lparr>SSHSignResponse.Certificate = \<lparr>SSHCertificate.Certificate = Some cert\<rparr>,
                AddUserCertificate = None\<rparr>))
     \<and> (\<forall>resp. Body w = Some (SignBody resp) \<longrightarrow>
          (AddUserCertificate resp \<noteq> None \<longleftrightarrow> addUser_policy addUser cert))"
proof -
  have w: "Status (logOtt w0 (OTT b)) = None"
    using fresh by simp
  have supplied: "addUser \<noteq> None \<longleftrightarrow> AddUserPublicKey b \<noteq> None"
    using au by (auto simp: addUser_key_def split: option.splits sum.splits)
  show ?thesis
  proof (cases "addUser_policy addUser cert")
    case False
    then show ?thesis
      using supplied JSON_created_fresh [OF w]
      by (simp add: SSHSign_parsed [where ReadJSON = ReadJSON and r_Body = r_Body, OF rd val pk au] az sg is_Call_SignSSHAddUser_def)
  next
    case True
    then obtain k where k: "addUser = Some k"
      by (auto simp: addUser_policy_def)
    obtain res st3 where r: "SignSSHAddUser h st2 k cert = (res, st3)"
      by (cases "SignSSHAddUser h st2 k cert")
    show ?thesis
    proof (cases res)
      case (Inl err)
      then show ?thesis
        using True k r supplied WriteError_fresh [OF w]
        by (simp add: SSHSign_parsed [where ReadJSON = ReadJSON and r_Body = r_Body, OF rd val pk au] az sg is_Call_SignSSHAddUser_def)
    next
      case (Inr addUserCert)
      then show ?thesis
        using True k r supplied JSON_created_fresh [OF w]
        by (simp add: SSHSign_parsed [where ReadJSON = ReadJSON and r_Body = r_Body, OF rd val pk au] az sg is_Call_SignSSHAddUser_def)
    qed
  qed
qed

lemma ex_fresh: "Status new_ResponseWriter = None"
  by (simp add: new_ResponseWriter_def)

lemma ex_Validate_ok:
  "ct = ''user'' \<or> ct = ''host'' \<Longrightarrow>
   SSHSignRequest_Validate (mk_SSHSignRequest ct (Some [0, 7]) ''good'' ps au) = None"
  by (auto simp: SSHSignRequest_Validate_def mk_SSHSignRequest_def len_def SSHUserCert_def
      SSHHostCert_def)

lemma ex_Parse_request_key:
  "ParsePublicKey ex_lib (elems (SSHSignRequest.PublicKey (mk_SSHSignRequest ct (Some [0, 7]) tok ps au)))
   = Inr (ex_key [7])"
  by (simp add: mk_SSHSignRequest_def elems_def ex_lib_def ex_ParsePublicKey_def)

lemma ex_addUser_key_Some:
  "addUser_key ex_lib (mk_SSHSignRequest ct pk tok ps (Some [0, m])) = Inr (Some (ex_key [m]))"
  by (simp add: addUser_key_def mk_SSHSignRequest_def ex_lib_def ex_ParsePublicKey_def)

lemma ex_addUser_key_None:
  "addUser_key ex_lib (mk_SSHSignRequest ct pk tok ps None) = Inr None"
  by (simp add: addUser_key_def mk_SSHSignRequest_def)

lemma ex_Authorize_good:
  "Authorize ex_Authority st SignSSHMethod (OTT (mk_SSHSignRequest ct pk ''good'' ps au))
   = (Inr [()], Suc st)"
  by (simp add: ex_Authority_def mk_SSHSignRequest_def)

lemma ex_SignSSH_user:
  "SignSSH ex_Authority st (ex_key [7])
     (opts_of (mk_SSHSignRequest ''user'' pk tok (Some (p # ps)) au)) signOpts
   = (Inr (ex_cert [0, 7] UserCert (Some (p # ps))), Suc st)"
  by (simp add: ex_Authority_def opts_of_def mk_SSHSignRequest_def len_def ex_key_def)

lemma ex_SignSSH_host:
  "SignSSH ex_Authority st (ex_key [7])
     (opts_of (mk_SSHSignRequest ''host'' pk tok (Some (p # ps)) au)) signOpts
   = (Inr (ex_cert [0, 7] HostCert (Some (p # ps))), Suc st)"
  by (simp add: ex_Authority_def opts_of_def mk_SSHSignRequest_def len_def ex_key_def)

lemma ex_SignSSHAddUser_ok:
  "SignSSHAddUser ex_Authority st (ex_key [9]) cert
   = (Inr (ex_cert [0, 9] UserCert (Some [''provisioner''])), Suc st)"
  by (simp add: ex_Authority_def ex_key_def)

lemma ex_SignSSHAddUser_refused:
  "SignSSHAddUser ex_Authority st (ex_key [13]) cert = (Inl (New ''add-user refused''), Suc st)"
  by (simp add: ex_Authority_def ex_key_def)

lemma ex_policy:
  "addUser_policy au (ex_cert m ty ps) \<longleftrightarrow> au \<noteq> None \<and> ty = UserCert \<and> len ps = 1"
  by (simp add: addUser_policy_def ex_cert_def)

lemma ex_ReadJSON_1:
  "ex_ReadJSON ''user+adduser''
   = Inr (mk_SSHSignRequest ''user'' (Some [0, 7]) ''good'' (Some [''alice'']) (Some [0, 9]))"
  by (simp add: ex_ReadJSON_def)

lemma ex_ReadJSON_2:
  "ex_ReadJSON ''user+adduser, two principals''
   = Inr (mk_SSHSignRequest ''user'' (Some [0, 7]) ''good'' (Some [''alice'', ''bob'']) (Some [0, 9]))"
  by (simp add: ex_ReadJSON_def)

lemma ex_ReadJSON_3:
  "ex_ReadJSON ''host+adduser''
   = Inr (mk_SSHSignRequest ''host'' (Some [0, 7]) ''good'' (Some [''alice'']) (Some [0, 9]))"
  by (simp add: ex_ReadJSON_def)

lemma ex_ReadJSON_4:
  "ex_ReadJSON ''user''
   = Inr (mk_SSHSignRequest ''user'' (Some [0, 7]) ''good'' (Some [''alice'']) None)"
  by (simp add: ex_ReadJSON_def)

lemma ex_ReadJSON_5:
  "ex_ReadJSON ''user+refused adduser''
   = Inr (mk_SSHSignRequest ''user'' (Some [0, 7]) ''good'' (Some [''alice'']) (Some [0, 13]))"
  by (simp add: ex_ReadJSON_def)

theorem SSHSign_addUser_witness:
  "(case SSHSign ex_lib ex_ReadJSON ex_Authority 0 new_ResponseWriter ''user+adduser'' of
      (w, st', calls) \<Rightarrow>
        Status w = Some 201
        \<and> Body w = Some (SignBody
             \<lparr>SSHSignResponse.Certificate =
                \<lparr>SSHCertificate.Certificate = Some (ex_cert [0, 7] UserCert (Some [''alice'']))\<rparr>,
              AddUserCertificate =
                Some \<lparr>SSHCertificate.Certificate =
                        Some (ex_cert [0, 9] UserCert (Some [''provisioner'']))\<rparr>\<rparr>)
        \<and> length calls = 3)
   \<and> (case SSHSign ex_lib ex_ReadJSON ex_Authority 0 new_ResponseWriter
             ''user+adduser, two principals'' of
      (w, st', calls) \<Rightarrow>
        Status w = Some 201
        \<and> Body w = Some (SignBody
             \<lparr>SSHSignResponse.Certificate =
                \<lparr>SSHCertificate.Certificate =
                   Some (ex_cert [0, 7] UserCert (Some [''alice'', ''bob'']))\<rparr>,
              AddUserCertificate = None\<rparr>)
        \<and> length calls = 2)
   \<and> (case SSHSign ex_lib ex_ReadJSON ex_Authority 0 new_ResponseWriter ''host+adduser'' of
      (w, st', calls) \<Rightarrow>
        Status w = Some 201
        \<and> Body w = Some (SignBody
             \<lparr>SSHSignResponse.Certificate =
                \<lparr>SSHCertificate.Certificate = Some (ex_cert [0, 7] HostCert (Some [''alice'']))\<rparr>,
              AddUserCertificate = None\<rparr>)
        \<and> length calls = 2)
   \<and> (case SSHSign ex_lib ex_ReadJSON ex_Authority 0 new_ResponseWriter ''user'' of
      (w, st', calls) \<Rightarrow>
        Status w = Some 201
        \<and> Body w = Some (SignBody
             \<lparr>SSHSignResponse.Certificate =
                \<lparr>SSHCertificate.Certificate = Some (ex_cert [0, 7] UserCert (Some [''alice'']))\<rparr>,
              AddUserCertificate = None\<rparr>)
        \<and> length calls = 2)
   \<and> (case SSHSign ex_lib ex_ReadJSON ex_Authority 0 new_ResponseWriter ''user+refused adduser'' of
      (w, st', calls) \<Rightarrow>
        Status w = Some 403
        \<and> Body w = Some (ErrorBody (Forbidden (New ''add-user refused'')))
        \<and> length calls = 3)"
proof -
  have u: "''user'' = ''user'' \<or> ''user'' = ''host''" and h: "''host'' = ''user'' \<or> ''host'' = ''host''"
    by simp_all
  note t1 = SSHSign_addUser [where ReadJSON = ex_ReadJSON and r_Body = "''user+adduser''"
      and h = ex_Authority and st = 0,
      OF ex_fresh ex_ReadJSON_1 ex_Validate_ok [OF u] ex_Parse_request_key ex_addUser_key_Some
        ex_Authorize_good ex_SignSSH_user]
  note t2 = SSHSign_addUser [where ReadJSON = ex_ReadJSON
      and r_Body = "''user+adduser, two principals''" and h = ex_Authority and st = 0,
      OF ex_fresh ex_ReadJSON_2 ex_Validate_ok [OF u] ex_Parse_request_key ex_addUser_key_Some
        ex_Authorize_good ex_SignSSH_user]
  note t3 = SSHSign_addUser [where ReadJSON = ex_ReadJSON and r_Body = "''host+adduser''"
      and h = ex_Authority and st = 0,
      OF ex_fresh ex_ReadJSON_3 ex_Validate_ok [OF h] ex_Parse_request_key ex_addUser_key_Some
        ex_Authorize_good ex_SignSSH_host]
  note t4 = SSHSign_addUser [where ReadJSON = ex_ReadJSON and r_Body = "''user''"
      and h = ex_Authority and st = 0,
      OF ex_fresh ex_ReadJSON_4 ex_Validate_ok [OF u] ex_Parse_request_key ex_addUser_key_None
        ex_Authorize_good ex_SignSSH_user]
  note t5 = SSHSign_addUser [where ReadJSON = ex_ReadJSON and r_Body = "''user+refused adduser''"
      and h = ex_Authority and st = 0,
      OF ex_fresh ex_ReadJSON_5 ex_Validate_ok [OF u] ex_Parse_request_key ex_addUser_key_Some
        ex_Authorize_good ex_SignSSH_user]
  have c1: "case SSHSign ex_lib ex_ReadJSON ex_Authority 0 new_ResponseWriter ''user+adduser'' of
      (w, st', calls) \<Rightarrow>
        Status w = Some 201
        \<and> Body w = Some (SignBody
             \<lparr>SSHSignResponse.Certificate =
                \<lparr>SSHCertificate.Certificate = Some (ex_cert [0, 7] UserCert (Some [''alice'']))\<rparr>,
              AddUserCertificate =
                Some \<lparr>SSHCertificate.Certificate =
                        Some (ex_cert [0, 9] UserCert (Some [''provisioner'']))\<rparr>\<rparr>)
        \<and> length calls = 3"
    using t1 by (auto simp: ex_policy ex_SignSSHAddUser_ok len_def split: prod.splits)
  have c2: "case SSHSign ex_lib ex_ReadJSON ex_Authority 0 new_ResponseWriter
             ''user+adduser, two principals'' of
      (w, st', calls) \<Rightarrow>
        Status w = Some 201
        \<and> Body w = Some (SignBody
             \<lparr>SSHSignResponse.Certificate =
                \<lparr>SSHCertificate.Certificate =
                   Some (ex_cert [0, 7] UserCert (Some [''alice'', ''bob'']))\<rparr>,
              AddUserCertificate = None\<rparr>)
        \<and> length calls = 2"
    using t2 by (auto simp: ex_policy len_def split: prod.splits)
  have c3: "case SSHSign ex_lib ex_ReadJSON ex_Authority 0 new_ResponseWriter ''host+adduser'' of
      (w, st', calls) \<Rightarrow>
        Status w = Some 201
        \<and> Body w = Some (SignBody
             \<lparr>SSHSignResponse.Certificate =
                \<lparr>SSHCertificate.Certificate = Some (ex_cert [0, 7] HostCert (Some [''alice'']))\<rparr>,
              AddUserCertificate = None\<rparr>)
        \<and> length calls = 2"
    using t3 by (auto simp: ex_policy len_def HostCert_def UserCert_def split: prod.splits)
  have c4: "case SSHSign ex_lib ex_ReadJSON ex_Authority 0 new_ResponseWriter ''user'' of
      (w, st', calls) \<Rightarrow>
        Status w = Some 201
        \<and> Body w = Some (SignBody
             \<lparr>SSHSignResponse.Certificate =
                \<lparr>SSHCertificate.Certificate = Some (ex_cert [0, 7] UserCert (Some [''alice'']))\<rparr>,
              AddUserCertificate = None\<rparr>)
        \<and> length calls = 2"
    using t4 by (auto simp: ex_policy len_def split: prod.splits)
  have c5: "case SSHSign ex_lib ex_ReadJSON ex_Authority 0 new_ResponseWriter ''user+refused adduser'' of
      (w, st', calls) \<Rightarrow>
        Status w = Some 403
        \<and> Body w = Some (ErrorBody (Forbidden (New ''add-user refused'')))
        \<and> length calls = 3"
    using t5 by (auto simp: ex_policy ex_SignSSHAddUser_refused len_def split: prod.splits)
  from c1 c2 c3 c4 c5 show ?thesis by blast
qed

lemma SSHSign_early:
  "ReadJSON r_Body = Inl err \<Longrightarrow>
     SSHSign L ReadJSON h st w0 r_Body
       = (WriteError w0 (BadRequest (Wrap err ''error reading request body'')), st, [])"
  "ReadJSON r_Body = Inr b \<Longrightarrow> SSHSignRequest_Validate b = Some err \<Longrightarrow>
     SSHSign L ReadJSON h st w0 r_Body
       = (WriteError (logOtt w0 (OTT b)) (BadRequest err), st, [])"
  "ReadJSON r_Body = Inr b \<Longrightarrow> SSHSignRequest_Validate b = None \<Longrightarrow>
   ParsePublicKey L (elems (SSHSignRequest.PublicKey b)) = Inl err \<Longrightarrow>
     SSHSign L ReadJSON h st w0 r_Body
       = (WriteError (logOtt w0 (OTT b)) (BadRequest (Wrap err ''error parsing publicKey'')), st, [])"
  "ReadJSON r_Body = Inr b \<Longrightarrow> SSHSignRequest_Validate b = None \<Longrightarrow>
   ParsePublicKey L (elems (SSHSignRequest.PublicKey b)) = Inr publicKey \<Longrightarrow>
   addUser_key L b = Inl err \<Longrightarrow>
     SSHSign L ReadJSON h st w0 r_Body
       = (WriteError (logOtt w0 (OTT b)) (BadRequest (Wrap err ''error parsing addUserPublicKey'')),
          st, [])"
  unfolding SSHSign_def Let_def addUser_key_def [symmetric]
  by simp_all

text \<open>
  Claim C8. On a fresh response writer, the status the sign handler writes follows the
  first stage that fails: 400 when the body cannot be read, when validation fails, when
  the public key does not parse, when the add-user key does not parse; 401 when
  \<open>Authorize\<close> returns an error; 403 when \<open>SignSSH\<close> returns an error, and when the
  add-user policy holds and \<open>SignSSHAddUser\<close> returns an error; 201, with the sign
  response as the body, when every stage succeeds. The body of an error response holds
  the error of the failing stage.
\<close>

theorem SSHSign_status:
  assumes fresh: "Status w0 = None"
  shows "case SSHSign L ReadJSON h st w0 r_Body of (w, st', calls) \<Rightarrow>
    (\<forall>err. ReadJSON r_Body = Inl err \<longrightarrow>
       Status w = Some 400
       \<and> Body w = Some (ErrorBody (BadRequest (Wrap err ''error reading request body''))))
    \<and> (\<forall>b. ReadJSON r_Body = Inr b \<longrightarrow>
       (\<forall>err. SSHSignRequest_Validate b = Some err \<longrightarrow>
          Status w = Some 400 \<and> Body w = Some (ErrorBody (BadRequest err)))
       \<and> (SSHSignRequest_Validate b = None \<longrightarrow>
          (\<forall>err. ParsePublicKey L (elems (SSHSignRequest.PublicKey b)) = Inl err \<longrightarrow>
             Status w = Some 400
             \<and> Body w = Some (ErrorBody (BadRequest (Wrap err ''error parsing publicKey''))))
          \<and> (\<forall>publicKey. ParsePublicKey L (elems (SSHSignRequest.PublicKey b)) = Inr publicKey \<longrightarrow>
             (\<forall>err. addUser_key L b = Inl err \<longrightarrow>
                Status w = Some 400
                \<and> Body w = Some (ErrorBody (BadRequest (Wrap err ''error parsing addUserPublicKey''))))
             \<and> (\<forall>addUser. addUser_key L b = Inr addUser \<longrightarrow>
                (\<forall>err st1. Authorize h st SignSSHMethod (OTT b) = (Inl err, st1) \<longrightarrow>
                   Status w = Some 401 \<and> Body w = Some (ErrorBody (Unauthorized err)))
                \<and> (\<forall>signOpts st1. Authorize h st SignSSHMethod (OTT b) = (Inr signOpts, st1) \<longrightarrow>
                   (\<forall>err st2. SignSSH h st1 publicKey (opts_of b) signOpts = (Inl err, st2) \<longrightarrow>
                      Status w = Some 403 \<and> Body w = Some (ErrorBody (Forbidden err)))
                   \<and> (\<forall>cert st2. SignSSH h st1 publicKey (opts_of b) signOpts = (Inr cert, st2) \<longrightarrow>
                      (addUser_policy addUser cert \<longrightarrow>
                         (\<forall>err st3. SignSSHAddUser h st2 (the addUser) cert = (Inl err, st3) \<longrightarrow>
                            Status w = Some 403 \<and> Body w = Some (ErrorBody (Forbidden err)))
                         \<and> (\<forall>addUserCert st3.
                              SignSSHAddUser h st2 (the addUser) cert = (Inr addUserCert, st3) \<longrightarrow>
                              Status w = Some 201
                              \<and> Body w = Some (SignBody
                                   \<lparr>SSHSignResponse.Certificate =
                                      \<lparr>SSHCertificate.Certificate = Some cert\<rparr>,
                                    AddUserCertificate =
                                      Some \<lparr>SSHCertificate.Certificate = Some addUserCert\<rparr>\<rparr>)))
                      \<and> (\<not> addUser_policy addUser cert \<longrightarrow>
                           Status w = Some 201
                           \<and> Body w = Some (SignBody
                                \<lparr>SSHSignResponse.Certificate =
                                   \<lparr>SSHCertificate.Certificate = Some cert\<rparr>,
                                 AddUserCertificate = None\<rparr>))))))))"
proof -
  have w: "\<And>t. Status (logOtt w0 t) = None"
    using fresh by simp
  have e0: "\<And>e. Status (WriteError w0 e) = Some (StatusCode e)
                 \<and> Body (WriteError w0 e) = Some (ErrorBody e)"
    using WriteError_fresh [OF fresh] by simp
  have e1: "\<And>t e. Status (WriteError (logOtt w0 t) e) = Some (StatusCode e)
                 \<and> Body (WriteError (logOtt w0 t) e) = Some (ErrorBody e)"
    using WriteError_fresh [OF w] by simp
  have j1: "\<And>t v. Status (JSON (WriteHeader (logOtt w0 t) StatusCreated) v) = Some 201
                 \<and> Body (JSON (WriteHeader (logOtt w0 t) StatusCreated) v) = Some v"
    using JSON_created_fresh [OF w] by simp
  show ?thesis
  proof (cases "ReadJSON r_Body")
    case (Inl err)
    then show ?thesis by (simp add: SSHSign_early(1) e0)
  next
    case rd: (Inr b)
    show ?thesis
    proof (cases "SSHSignRequest_Validate b")
      case (Some err)
      then show ?thesis using rd by (simp add: SSHSign_early(2) e1)
    next
      case val: None
      show ?thesis
      proof (cases "ParsePublicKey L (elems (SSHSignRequest.PublicKey b))")
        case (Inl err)
        then show ?thesis using rd val by (simp add: SSHSign_early(3) e1)
      next
        case pk: (Inr publicKey)
        show ?thesis
        proof (cases "addUser_key L b")
          case (Inl err)
          then show ?thesis
            using rd val pk
            by (simp add: SSHSign_early(4) [where ReadJSON = ReadJSON and r_Body = r_Body] e1)
        next
          case au: (Inr addUser)
          show ?thesis
            unfolding SSHSign_parsed [where ReadJSON = ReadJSON and r_Body = r_Body, OF rd val pk au]
            using rd val pk au
            by (auto simp: e1 j1 split: prod.splits sum.splits)
        qed
      qed
    qed
  qed
qed

lemma ex_ReadJSON_garbage: "ex_ReadJSON ''{'' = Inl (New ''unexpected end of JSON input'')"
  by (simp add: ex_ReadJSON_def)

lemma ex_ReadJSON_6:
  "ex_ReadJSON ''user, no principals''
   = Inr (mk_SSHSignRequest ''user'' (Some [0, 7]) ''good'' None None)"
  by (simp add: ex_ReadJSON_def)

lemma ex_ReadJSON_7:
  "ex_ReadJSON ''user, bad token''
   = Inr (mk_SSHSignRequest ''user'' (Some [0, 7]) ''bad'' (Some [''alice'']) None)"
  by (simp add: ex_ReadJSON_def)

lemma ex_ReadJSON_8:
  "ex_ReadJSON ''user, bad key''
   = Inr (mk_SSHSignRequest ''user'' (Some [9]) ''good'' (Some [''alice'']) None)"
  by (simp add: ex_ReadJSON_def)

lemma ex_ReadJSON_9:
  "ex_ReadJSON ''user, bad adduser key''
   = Inr (mk_SSHSignRequest ''user'' (Some [0, 7]) ''good'' (Some [''alice'']) (Some []))"
  by (simp add: ex_ReadJSON_def)

lemma ex_ReadJSON_10:
  "ex_ReadJSON ''unknown type''
   = Inr (mk_SSHSignRequest ''X'' (Some [0, 7]) ''good'' (Some [''alice'']) None)"
  by (simp add: ex_ReadJSON_def)

lemma ex_Validate_user:
  "SSHSignRequest_Validate (mk_SSHSignRequest ''user'' (Some (x # xs)) (t # ts) ps au) = None"
  by (simp add: SSHSignRequest_Validate_def mk_SSHSignRequest_def len_def SSHUserCert_def)

lemma ex_Validate_X:
  "SSHSignRequest_Validate (mk_SSHSignRequest ''X'' pk tok ps au) = Some (New ''unknown certType X'')"
  by (simp add: SSHSignRequest_Validate_def mk_SSHSignRequest_def SSHUserCert_def SSHHostCert_def)

lemma ex_Parse_request_bad_key:
  "ParsePublicKey ex_lib (elems (SSHSignRequest.PublicKey (mk_SSHSignRequest ct (Some [9]) tok ps au)))
   = Inl (New ''ssh: unknown key algorithm'')"
  by (simp add: mk_SSHSignRequest_def elems_def ex_lib_def ex_ParsePublicKey_def)

lemma ex_addUser_key_bad:
  "addUser_key ex_lib (mk_SSHSignRequest ct pk tok ps (Some [])) = Inl (New ''ssh: short read'')"
  by (simp add: addUser_key_def mk_SSHSignRequest_def ex_lib_def ex_ParsePublicKey_def)

lemma ex_Authorize_bad:
  "Authorize ex_Authority st SignSSHMethod (OTT (mk_SSHSignRequest ct pk ''bad'' ps au))
   = (Inl (New ''token rejected''), Suc st)"
  by (simp add: ex_Authority_def mk_SSHSignRequest_def)

lemma ex_SignSSH_refused:
  "SignSSH ex_Authority st k (opts_of (mk_SSHSignRequest ct pk tok None au)) signOpts
   = (Inl (New ''no principals''), Suc st)"
  by (simp add: ex_Authority_def opts_of_def mk_SSHSignRequest_def len_def)

theorem SSHSign_status_witness:
  "Status (fst (SSHSign ex_lib ex_ReadJSON ex_Authority 0 new_ResponseWriter ''{'')) = Some 400
   \<and> Status (fst (SSHSign ex_lib ex_ReadJSON ex_Authority 0 new_ResponseWriter ''unknown type''))
       = Some 400
   \<and> Status (fst (SSHSign ex_lib ex_ReadJSON ex_Authority 0 new_ResponseWriter ''user, bad key''))
       = Some 400
   \<and> Status (fst (SSHSign ex_lib ex_ReadJSON ex_Authority 0 new_ResponseWriter
                    ''user, bad adduser key''))
       = Some 400
   \<and> Status (fst (SSHSign ex_lib ex_ReadJSON ex_Authority 0 new_ResponseWriter ''user, bad token''))
       = Some 401
   \<and> Status (fst (SSHSign ex_lib ex_ReadJSON ex_Authority 0 new_ResponseWriter
                    ''user, no principals''))
       = Some 403
   \<and> Status (fst (SSHSign ex_lib ex_ReadJSON ex_Authority 0 new_ResponseWriter
                    ''user+refused adduser''))
       = Some 403
   \<and> Status (fst (SSHSign ex_lib ex_ReadJSON ex_Authority 0 new_ResponseWriter ''user+adduser''))
       = Some 201
   \<and> Body (fst (SSHSign ex_lib ex_ReadJSON ex_Authority 0 new_ResponseWriter ''user+adduser''))
       = Some (SignBody
           \<lparr>SSHSignResponse.Certificate =
              \<lparr>SSHCertificate.Certificate = Some (ex_cert [0, 7] UserCert (Some [''alice'']))\<rparr>,
            AddUserCertificate =
              Some \<lparr>SSHCertificate.Certificate =
                      Some (ex_cert [0, 9] UserCert (Some [''provisioner'']))\<rparr>\<rparr>)"
proof -
  note t = SSHSign_status [OF ex_fresh, where L = ex_lib and ReadJSON = ex_ReadJSON
      and h = ex_Authority and st = 0]
  have c1: "Status (fst (SSHSign ex_lib ex_ReadJSON ex_Authority 0 new_ResponseWriter ''{'')) = Some 400"
    using t [where r_Body = "''{''"] by (auto simp: ex_ReadJSON_garbage split: prod.splits)
  have c2: "Status (fst (SSHSign ex_lib ex_ReadJSON ex_Authority 0 new_ResponseWriter ''unknown type''))
       = Some 400"
    using t [where r_Body = "''unknown type''"]
    by (auto simp: ex_ReadJSON_10 ex_Validate_X split: prod.splits)
  have c3: "Status (fst (SSHSign ex_lib ex_ReadJSON ex_Authority 0 new_ResponseWriter ''user, bad key''))
       = Some 400"
    using t [where r_Body = "''user, bad key''"]
    by (auto simp: ex_ReadJSON_8 ex_Validate_user ex_Parse_request_bad_key split: prod.splits)
  have c4: "Status (fst (SSHSign ex_lib ex_ReadJSON ex_Authority 0 new_ResponseWriter
                    ''user, bad adduser key''))
       = Some 400"
    using t [where r_Body = "''user, bad adduser key''"]
    by (auto simp: ex_ReadJSON_9 ex_Validate_user ex_Parse_request_key ex_addUser_key_bad
        split: prod.splits)
  have c5: "Status (fst (SSHSign ex_lib ex_ReadJSON ex_Authority 0 new_ResponseWriter ''user, bad token''))
       = Some 401"
    using t [where r_Body = "''user, bad token''"]
    by (auto simp: ex_ReadJSON_7 ex_Validate_user ex_Parse_request_key ex_addUser_key_None
        ex_Authorize_bad split: prod.splits)
  have c6: "Status (fst (SSHSign ex_lib ex_ReadJSON ex_Authority 0 new_ResponseWriter
                    ''user, no principals''))
       = Some 403"
    using t [where r_Body = "''user, no principals''"]
    by (auto simp: ex_ReadJSON_6 ex_Validate_user ex_Parse_request_key ex_addUser_key_None
        ex_Authorize_good ex_SignSSH_refused split: prod.splits)
  have c7: "Status (fst (SSHSign ex_lib ex_ReadJSON ex_Authority 0 new_ResponseWriter
                    ''user+refused adduser''))
       = Some 403"
    using t [where r_Body = "''user+refused adduser''"]
    by (auto simp: ex_ReadJSON_5 ex_Validate_user ex_Parse_request_key ex_addUser_key_Some
        ex_Authorize_good ex_SignSSH_user ex_policy len_def ex_SignSSHAddUser_refused
        split: prod.splits)
  have c8: "Status (fst (SSHSign ex_lib ex_ReadJSON ex_Authority 0 new_ResponseWriter ''user+adduser''))
       = Some 201
   \<and> Body (fst (SSHSign ex_lib ex_ReadJSON ex_Authority 0 new_ResponseWriter ''user+adduser''))
       = Some (SignBody
           \<lparr>SSHSignResponse.Certificate =
              \<lparr>SSHCertificate.Certificate = Some (ex_cert [0, 7] UserCert (Some [''alice'']))\<rparr>,
            AddUserCertificate =
              Some \<lparr>SSHCertificate.Certificate =
                      Some (ex_cert [0, 9] UserCert (Some [''provisioner'']))\<rparr>\<rparr>)"
    using t [where r_Body = "''user+adduser''"]
    by (auto simp: ex_ReadJSON_1 ex_Validate_user ex_Parse_request_key ex_addUser_key_Some
        ex_Authorize_good ex_SignSSH_user ex_policy len_def ex_SignSSHAddUser_ok
        split: prod.splits)
  from c1 c2 c3 c4 c5 c6 c7 c8 show ?thesis by blast
qed

end
